theory Spec2Isabelle
  imports Complex_Main
begin

section \<open>Data model of \<^verbatim>\<open>utils/esg_logic.py\<close>\<close>

text \<open>
  The module works on pandas data frames. A data frame is modelled as the list of its
  rows, in row order, and a row as a record of the columns the module reads or writes.
  Adding a column is record extension, so the four row types form a chain.

  Failures are values. \<open>ValueError\<close> is what pandas raises for the extreme of an empty
  series, \<open>ZeroDivisionError\<close> marks a division whose divisor is zero, and
  \<open>EmptyInputError\<close> is the error that the specification names for an empty valued
  table; the module itself has no such error.
\<close>

datatype py_error = ValueError | ZeroDivisionError | EmptyInputError

subsection \<open>Numbers\<close>

text \<open>
  A numeric cell of a frame is an \<^verbatim>\<open>int64\<close> or a \<^verbatim>\<open>float64\<close>. The model keeps the
  mathematical value of a cell: a finite number, or one of the two infinities of
  \<^verbatim>\<open>float64\<close>; NaN is \<open>None\<close> in a column that can hold it. Comparisons of the
  source (\<^verbatim>\<open>>\<close>, \<^verbatim>\<open>>=\<close>, the search for an extreme) are exact on these values, and a
  comparison with NaN is false. Negative zero is not distinguished from zero: the two
  compare equal, and the module never divides by a zero.

  The columns that the module reads from its inputs hold what the inputs hold: the
  three ESG components and the quantities of the holdings map are finite numbers, a
  price is whatever \<^verbatim>\<open>pd.to_numeric\<close> makes of the raw cell.
\<close>

datatype xreal = Fin real | PInf | NInf

fun xle :: "xreal \<Rightarrow> xreal \<Rightarrow> bool" where
  "xle NInf y = True"
| "xle x PInf = True"
| "xle (Fin a) (Fin b) = (a \<le> b)"
| "xle PInf y = False"
| "xle x NInf = False"

instantiation xreal :: linorder
begin

definition less_eq_xreal :: "xreal \<Rightarrow> xreal \<Rightarrow> bool" where
  "less_eq_xreal x y = xle x y"

definition less_xreal :: "xreal \<Rightarrow> xreal \<Rightarrow> bool" where
  "less_xreal x y = (xle x y \<and> \<not> xle y x)"

instance
proof
  fix x y z :: xreal
  show "(x < y) = (x \<le> y \<and> \<not> y \<le> x)"
    by (simp add: less_xreal_def less_eq_xreal_def)
  show "x \<le> x"
    by (cases x) (simp_all add: less_eq_xreal_def)
  show "x \<le> y \<Longrightarrow> y \<le> z \<Longrightarrow> x \<le> z"
    by (cases x; cases y; cases z) (simp_all add: less_eq_xreal_def)
  show "x \<le> y \<Longrightarrow> y \<le> x \<Longrightarrow> x = y"
    by (cases x; cases y) (simp_all add: less_eq_xreal_def)
  show "x \<le> y \<or> y \<le> x"
    by (cases x; cases y) (auto simp: less_eq_xreal_def)
qed

end

type_synonym num = "xreal option"

text \<open>\<^verbatim>\<open>x > 0\<close> on a cell that may be NaN.\<close>

fun positive :: "num \<Rightarrow> bool" where
  "positive None = False"
| "positive (Some x) = (Fin 0 < x)"

text \<open>
  The results of the arithmetic operations depend on the types of the columns and on
  rounding: a product of two \<^verbatim>\<open>int64\<close> columns wraps around, \<^verbatim>\<open>float64\<close> operations
  round, overflow and underflow, a sum of a \<^verbatim>\<open>float64\<close> column is rounded at every
  addition, in the order numpy adds. The model therefore takes the arithmetic as a
  parameter: one function for each kind of operation the module performs, told which
  column it computes. The model itself fixes which operation is applied to which cells,
  what happens to NaN, and every comparison and branch.
\<close>

datatype score_column = Col_ESG_Score | Col_esg_e | Col_esg_s | Col_esg_g

datatype column = Of_Value | Of_Weighted score_column

record arith =
  mean3 :: "real \<Rightarrow> real \<Rightarrow> real \<Rightarrow> xreal"
  times :: "column \<Rightarrow> xreal \<Rightarrow> xreal \<Rightarrow> num"
  reduce :: "column \<Rightarrow> xreal list \<Rightarrow> num"
  quot :: "column \<Rightarrow> xreal \<Rightarrow> xreal \<Rightarrow> num"

text \<open>
  \<^item> \<open>mean3 A e s g\<close> is \<^verbatim>\<open>(e + s + g) / 3\<close> for one row: two additions and a true
    division, whose result is a \<^verbatim>\<open>float64\<close>; from finite components it is never NaN.
  \<^item> \<open>times A c x y\<close> is the product \<^verbatim>\<open>x * y\<close> of two cells that are not NaN;
    \<open>Of_Value\<close> is \<^verbatim>\<open>Holding * last_price\<close>, and \<open>Of_Weighted c\<close> is the product of
    the score column \<open>c\<close> with \<^verbatim>\<open>Value (USD)\<close>.
  \<^item> \<open>reduce A c xs\<close> is numpy's sum of an array without NaN.
  \<^item> \<open>quot A c x y\<close> is the true division \<^verbatim>\<open>x / y\<close> of two numbers that are not NaN.
\<close>

subsection \<open>IEEE arithmetic as an instance\<close>

text \<open>
  Rounding to \<^verbatim>\<open>float64\<close>: to the nearest number with a 53 bit significand, ties to the
  even significand, with gradual underflow below \<open>2 ^ - 1022\<close> and overflow to an infinity
  from \<open>2 ^ 1024\<close> on. \<open>binade n a 0\<close> is the exponent \<open>e\<close> with \<open>2 ^ e \<le> a < 2 ^ (e + 1)\<close>,
  searched for in at most \<open>n\<close> steps; the 2200 steps that \<open>rnd\<close> allows reach every
  exponent that matters.
\<close>

definition round_even :: "real \<Rightarrow> int" where
  "round_even x =
     (let f = \<lfloor>x\<rfloor>; d = x - of_int f
      in if d < 1 / 2 then f else if 1 / 2 < d then f + 1 else if even f then f else f + 1)"

fun binade :: "nat \<Rightarrow> real \<Rightarrow> int \<Rightarrow> int" where
  "binade 0 a e = e"
| "binade (Suc n) a e =
     (if 2 \<le> a then binade n (a / 2) (e + 1)
      else if a < 1 then binade n (a * 2) (e - 1)
      else e)"

definition rnd :: "real \<Rightarrow> xreal" where
  "rnd x =
     (if x = 0 then Fin 0
      else let a = \<bar>x\<bar>;
               q = max (binade 2200 a 0 - 52) (- 1074);
               y = of_int (round_even (a / 2 powi q)) * 2 powi q
           in if 2 ^ 1024 \<le> y then (if 0 < x then PInf else NInf)
              else Fin (if 0 < x then y else - y))"

text \<open>The value of a float literal of the source.\<close>

definition double_of :: "real \<Rightarrow> real" where
  "double_of x = (case rnd x of Fin y \<Rightarrow> y | PInf \<Rightarrow> 0 | NInf \<Rightarrow> 0)"

text \<open>
  The operations of IEEE 754 on values that are not NaN, with the rounding \<open>r\<close> of a
  finite exact result as a parameter: \<open>rnd\<close> gives \<^verbatim>\<open>float64\<close>, \<open>Fin\<close> gives exact
  arithmetic.
\<close>

fun xneg :: "xreal \<Rightarrow> xreal" where
  "xneg (Fin a) = Fin (- a)"
| "xneg PInf = NInf"
| "xneg NInf = PInf"

fun ieee_add :: "(real \<Rightarrow> xreal) \<Rightarrow> xreal \<Rightarrow> xreal \<Rightarrow> num" where
  "ieee_add r (Fin a) (Fin b) = Some (r (a + b))"
| "ieee_add r PInf NInf = None"
| "ieee_add r NInf PInf = None"
| "ieee_add r PInf y = Some PInf"
| "ieee_add r NInf y = Some NInf"
| "ieee_add r x PInf = Some PInf"
| "ieee_add r x NInf = Some NInf"

fun ieee_mul :: "(real \<Rightarrow> xreal) \<Rightarrow> xreal \<Rightarrow> xreal \<Rightarrow> num" where
  "ieee_mul r (Fin a) (Fin b) = Some (r (a * b))"
| "ieee_mul r (Fin a) y = (if a = 0 then None else Some (if 0 < a then y else xneg y))"
| "ieee_mul r x (Fin b) = (if b = 0 then None else Some (if 0 < b then x else xneg x))"
| "ieee_mul r PInf y = Some y"
| "ieee_mul r NInf y = Some (xneg y)"

fun ieee_div :: "(real \<Rightarrow> xreal) \<Rightarrow> xreal \<Rightarrow> xreal \<Rightarrow> num" where
  "ieee_div r (Fin a) (Fin b) =
     (if b = 0 then (if a = 0 then None else Some (if 0 < a then PInf else NInf))
      else Some (r (a / b)))"
| "ieee_div r (Fin a) y = Some (Fin 0)"
| "ieee_div r x (Fin b) = Some (if 0 \<le> b then x else xneg x)"
| "ieee_div r x y = None"

text \<open>An addition whose left operand may already be NaN.\<close>

definition nan_add :: "(real \<Rightarrow> xreal) \<Rightarrow> num \<Rightarrow> xreal \<Rightarrow> num" where
  "nan_add r s y = (case s of None \<Rightarrow> None | Some x \<Rightarrow> ieee_add r x y)"

text \<open>
  With every column a \<^verbatim>\<open>float64\<close> column: the mean is two rounded additions and a rounded
  division (an overflow gives an infinity, and adding a finite number to an infinity or
  dividing it by 3 leaves it), and the sum adds from left to right, starting from 0, as
  numpy does for an array of fewer than eight cells.
\<close>

fun add_finite :: "(real \<Rightarrow> xreal) \<Rightarrow> xreal \<Rightarrow> real \<Rightarrow> xreal" where
  "add_finite r (Fin a) g = r (a + g)"
| "add_finite r PInf g = PInf"
| "add_finite r NInf g = NInf"

fun div_by_3 :: "(real \<Rightarrow> xreal) \<Rightarrow> xreal \<Rightarrow> xreal" where
  "div_by_3 r (Fin a) = r (a / 3)"
| "div_by_3 r PInf = PInf"
| "div_by_3 r NInf = NInf"

definition ieee_mean3 :: "(real \<Rightarrow> xreal) \<Rightarrow> real \<Rightarrow> real \<Rightarrow> real \<Rightarrow> xreal" where
  "ieee_mean3 r e s g = div_by_3 r (add_finite r (r (e + s)) g)"

definition ieee_arith :: "(real \<Rightarrow> xreal) \<Rightarrow> arith" where
  "ieee_arith r =
     \<lparr>mean3 = ieee_mean3 r,
      times = (\<lambda>c. ieee_mul r),
      reduce = (\<lambda>c xs. foldl (nan_add r) (Some (Fin 0)) xs),
      quot = (\<lambda>c. ieee_div r)\<rparr>"

definition f64_arith :: arith where
  "f64_arith = ieee_arith rnd"

definition exact_arith :: arith where
  "exact_arith = ieee_arith Fin"

subsection \<open>Rows\<close>

text \<open>
  A raw \<^verbatim>\<open>last_price\<close> cell of the price feed: either something that
  \<^verbatim>\<open>pd.to_numeric\<close> reads as a number (the cell gives the number it reads), or
  something it cannot parse.
\<close>

datatype cell = Numeric xreal | Malformed string

record 'c price_row =
  p_market :: string
  p_last_price :: 'c

record esg_row =
  e_market :: string
  e_name :: string
  e_esg_e :: real
  e_esg_s :: real
  e_esg_g :: real

record joined =
  market :: string
  last_price :: num
  name :: string
  esg_e :: real
  esg_s :: real
  esg_g :: real

record scored = joined +
  ESG_Score :: xreal

record merged = scored +
  ESG_Rating :: string

record valued = merged +
  Holding :: real
  Value_USD :: num

record metrics =
  total_value :: num
  weighted_esg :: num
  weighted_environmental :: num
  weighted_social :: num
  weighted_governance :: num
  num_holdings :: nat

section \<open>Library operations used by the module\<close>

text \<open>\<^verbatim>\<open>pd.to_numeric(col, errors='coerce')\<close>: unparseable cells become NaN.\<close>

fun to_numeric_coerce :: "cell \<Rightarrow> num" where
  "to_numeric_coerce (Numeric x) = Some x"
| "to_numeric_coerce (Malformed s) = None"

text \<open>
  \<^verbatim>\<open>left.merge(right, on="market", how="inner")\<close>: one output row for every pair of
  a left and a right row with equal keys, in the order of the left rows.
\<close>

definition join_pair :: "num price_row \<Rightarrow> esg_row \<Rightarrow> joined" where
  "join_pair p e =
     \<lparr>market = p_market p, last_price = p_last_price p, name = e_name e,
      esg_e = e_esg_e e, esg_s = e_esg_s e, esg_g = e_esg_g e\<rparr>"

definition merge_inner :: "num price_row list \<Rightarrow> esg_row list \<Rightarrow> joined list" where
  "merge_inner left right =
     concat (map (\<lambda>p. map (join_pair p) (filter (\<lambda>e. e_market e = p_market p) right)) left)"

text \<open>
  \<^verbatim>\<open>Series.sum()\<close> skips NaN: pandas puts 0 in the place of every NaN and lets numpy
  sum the array.
\<close>

definition nan_to_zero :: "num \<Rightarrow> xreal" where
  "nan_to_zero v = (case v of None \<Rightarrow> Fin 0 | Some x \<Rightarrow> x)"

definition nansum :: "arith \<Rightarrow> column \<Rightarrow> num list \<Rightarrow> num" where
  "nansum A c xs = reduce A c (map nan_to_zero xs)"

text \<open>Elementwise product of a column without NaN with a column that may hold NaN.\<close>

definition nanmul :: "arith \<Rightarrow> column \<Rightarrow> xreal \<Rightarrow> num \<Rightarrow> num" where
  "nanmul A c x v = (case v of None \<Rightarrow> None | Some y \<Rightarrow> times A c x y)"

text \<open>
  Division, with a zero divisor made visible as an error value so that the guard of
  \<^verbatim>\<open>calculate_portfolio_metrics\<close> can be checked. A NaN operand gives NaN.
\<close>

definition truediv :: "arith \<Rightarrow> column \<Rightarrow> num \<Rightarrow> num \<Rightarrow> py_error + num" where
  "truediv A c a b =
     (if b = Some (Fin 0) then Inl ZeroDivisionError
      else Inr (case (a, b) of (Some x, Some y) \<Rightarrow> quot A c x y | _ \<Rightarrow> None))"

definition and_then :: "py_error + 'a \<Rightarrow> ('a \<Rightarrow> py_error + 'b) \<Rightarrow> py_error + 'b" where
  "and_then r f = (case r of Inl e \<Rightarrow> Inl e | Inr x \<Rightarrow> f x)"

text \<open>
  \<^verbatim>\<open>Series.idxmax()\<close> and \<^verbatim>\<open>Series.idxmin()\<close>: the position of the first
  occurrence of the extreme value; on an empty series they raise \<^verbatim>\<open>ValueError\<close>.
  The scan keeps the best position so far and replaces it only on a strictly better value.
\<close>

fun scan_best :: "('a \<Rightarrow> 'a \<Rightarrow> bool) \<Rightarrow> 'a list \<Rightarrow> nat \<Rightarrow> nat \<Rightarrow> 'a \<Rightarrow> nat" where
  "scan_best better [] i b bv = b"
| "scan_best better (x # xs) i b bv =
     (if better x bv then scan_best better xs (Suc i) i x
      else scan_best better xs (Suc i) b bv)"

definition idxmax :: "'a::linorder list \<Rightarrow> py_error + nat" where
  "idxmax xs = (case xs of [] \<Rightarrow> Inl ValueError | x # rest \<Rightarrow> Inr (scan_best (\<lambda>a b. b < a) rest 1 0 x))"

definition idxmin :: "'a::linorder list \<Rightarrow> py_error + nat" where
  "idxmin xs = (case xs of [] \<Rightarrow> Inl ValueError | x # rest \<Rightarrow> Inr (scan_best (\<lambda>a b. a < b) rest 1 0 x))"

text \<open>Decimal text of a count, as an f-string prints an \<^verbatim>\<open>int\<close>.\<close>

definition digit_char :: "nat \<Rightarrow> char" where
  "digit_char d = char_of (48 + d)"

fun str_nat :: "nat \<Rightarrow> string" where
  "str_nat n = (if n < 10 then [digit_char n] else str_nat (n div 10) @ [digit_char (n mod 10)])"

declare str_nat.simps [simp del]

section \<open>The module's functions\<close>

text \<open>
  The column assignments of the source are vectorised; each is modelled as a function on
  one row, mapped over the rows.
\<close>

definition add_score :: "arith \<Rightarrow> joined \<Rightarrow> scored" where
  "add_score A r =
     \<lparr>market = market r, last_price = last_price r, name = name r,
      esg_e = esg_e r, esg_s = esg_s r, esg_g = esg_g r,
      ESG_Score = mean3 A (esg_e r) (esg_s r) (esg_g r)\<rparr>"

definition compute_weighted_esg :: "arith \<Rightarrow> joined list \<Rightarrow> scored list" where
  "compute_weighted_esg A df = map (add_score A) df"

definition categorize_esg_score :: "xreal \<Rightarrow> string" where
  "categorize_esg_score score =
     (if score \<ge> Fin 80 then ''A+ (Excellent)''
      else if score \<ge> Fin 70 then ''A (Very Good)''
      else if score \<ge> Fin 60 then ''B+ (Good)''
      else if score \<ge> Fin 50 then ''B (Fair)''
      else if score \<ge> Fin 40 then ''C+ (Below Average)''
      else ''C (Poor)'')"

definition add_rating :: "scored \<Rightarrow> merged" where
  "add_rating r =
     \<lparr>market = market r, last_price = last_price r, name = name r,
      esg_e = esg_e r, esg_s = esg_s r, esg_g = esg_g r,
      ESG_Score = ESG_Score r, ESG_Rating = categorize_esg_score (ESG_Score r)\<rparr>"

definition coerce_prices :: "cell price_row list \<Rightarrow> num price_row list" where
  "coerce_prices price_df =
     map (\<lambda>p. \<lparr>p_market = p_market p, p_last_price = to_numeric_coerce (p_last_price p)\<rparr>) price_df"

definition merge_price_and_esg :: "arith \<Rightarrow> cell price_row list \<Rightarrow> esg_row list \<Rightarrow> merged list" where
  "merge_price_and_esg A price_df esg_df =
     map add_rating (compute_weighted_esg A (merge_inner (coerce_prices price_df) esg_df))"

definition default_holdings :: "string \<rightharpoonup> real" where
  "default_holdings =
     map_of [(''BTCUSDT'', double_of 0.5), (''ETHUSDT'', double_of 1.2), (''ADAUSDT'', 100),
             (''MATICUSDT'', 500), (''SOLUSDT'', 10)]"

definition resolve_holdings :: "(string \<rightharpoonup> real) option \<Rightarrow> (string \<rightharpoonup> real)" where
  "resolve_holdings holdings_dict =
     (case holdings_dict of None \<Rightarrow> default_holdings | Some h \<Rightarrow> h)"

text \<open>
  \<^verbatim>\<open>df["market"].map(holdings_dict).fillna(0)\<close> for one row. A quantity of the map
  is given as the number that the \<^verbatim>\<open>Holding\<close> column holds for it.
\<close>

definition holding_of :: "(string \<rightharpoonup> real) \<Rightarrow> string \<Rightarrow> real" where
  "holding_of h symbol = (case h symbol of None \<Rightarrow> 0 | Some q \<Rightarrow> q)"

definition add_holding :: "arith \<Rightarrow> (string \<rightharpoonup> real) \<Rightarrow> merged \<Rightarrow> valued" where
  "add_holding A h r =
     \<lparr>market = market r, last_price = last_price r, name = name r,
      esg_e = esg_e r, esg_s = esg_s r, esg_g = esg_g r,
      ESG_Score = ESG_Score r, ESG_Rating = ESG_Rating r,
      Holding = holding_of h (market r),
      Value_USD = nanmul A Of_Value (Fin (holding_of h (market r))) (last_price r)\<rparr>"

text \<open>The cells of the four score columns that the metrics weight.\<close>

fun col_of :: "score_column \<Rightarrow> valued \<Rightarrow> xreal" where
  "col_of Col_ESG_Score r = ESG_Score r"
| "col_of Col_esg_e r = Fin (esg_e r)"
| "col_of Col_esg_s r = Fin (esg_s r)"
| "col_of Col_esg_g r = Fin (esg_g r)"

text \<open>\<^verbatim>\<open>(df[c] * df["Value (USD)"]).sum()\<close>\<close>

definition weighted_sum :: "arith \<Rightarrow> score_column \<Rightarrow> valued list \<Rightarrow> num" where
  "weighted_sum A c df =
     nansum A (Of_Weighted c) (map (\<lambda>r. nanmul A (Of_Weighted c) (col_of c r) (Value_USD r)) df)"

definition calculate_portfolio_metrics ::
  "arith \<Rightarrow> merged list \<Rightarrow> (string \<rightharpoonup> real) option \<Rightarrow> py_error + (valued list \<times> metrics)" where
  "calculate_portfolio_metrics A df0 holdings_dict =
     (let h = resolve_holdings holdings_dict;
          df = map (add_holding A h) df0;
          total = nansum A Of_Value (map Value_USD df);
          n = length (filter (\<lambda>r. Holding r > 0) df)
      in if positive total then
           and_then (truediv A (Of_Weighted Col_ESG_Score) (weighted_sum A Col_ESG_Score df) total) (\<lambda>w_esg.
           and_then (truediv A (Of_Weighted Col_esg_e) (weighted_sum A Col_esg_e df) total) (\<lambda>w_env.
           and_then (truediv A (Of_Weighted Col_esg_s) (weighted_sum A Col_esg_s df) total) (\<lambda>w_social.
           and_then (truediv A (Of_Weighted Col_esg_g) (weighted_sum A Col_esg_g df) total) (\<lambda>w_governance.
             Inr (df, \<lparr>total_value = total, weighted_esg = w_esg,
                       weighted_environmental = w_env, weighted_social = w_social,
                       weighted_governance = w_governance, num_holdings = n\<rparr>)))))
         else
           Inr (df, \<lparr>total_value = total, weighted_esg = Some (Fin 0),
                     weighted_environmental = Some (Fin 0), weighted_social = Some (Fin 0),
                     weighted_governance = Some (Fin 0), num_holdings = n\<rparr>))"

text \<open>
  \<^verbatim>\<open>get_esg_insights\<close>. The non-ASCII symbols of the source text are given as their
  UTF-8 bytes. How Python prints a float (\<^verbatim>\<open>:.1f\<close> for the scores, \<^verbatim>\<open>str\<close> for the
  environmental score) depends on the binary value of the float, so the two float
  printers are parameters of the model. The rows of a merged frame are labelled by
  their positions, so \<^verbatim>\<open>df.loc[label]\<close> is the row at that position.
\<close>

definition get_esg_insights ::
  "(xreal \<Rightarrow> string) \<Rightarrow> (real \<Rightarrow> string) \<Rightarrow> valued list \<Rightarrow> py_error + string list" where
  "get_esg_insights fmt1 fmt df =
     and_then (idxmax (map ESG_Score df)) (\<lambda>b.
     and_then (idxmin (map ESG_Score df)) (\<lambda>w.
       let best_esg = df ! b;
           worst_esg = df ! w;
           high_esg_count = length (filter (\<lambda>r. ESG_Score r \<ge> Fin 70) df);
           total_count = length df
       in and_then (idxmax (map esg_e df)) (\<lambda>l.
            let env_leader = df ! l
            in Inr [[CHR 0xF0, CHR 0x9F, CHR 0x8F, CHR 0x86] @ '' Highest ESG Score: '' @
                      name best_esg @ '' ('' @ fmt1 (ESG_Score best_esg) @ '')'',
                    [CHR 0xE2, CHR 0x9A, CHR 0xA0, CHR 0xEF, CHR 0xB8, CHR 0x8F] @
                      '' Lowest ESG Score: '' @
                      name worst_esg @ '' ('' @ fmt1 (ESG_Score worst_esg) @ '')'',
                    [CHR 0xF0, CHR 0x9F, CHR 0x93, CHR 0x8A] @ '' '' @
                      str_nat high_esg_count @ ''/'' @ str_nat total_count @
                      '' assets have ESG scores '' @ [CHR 0xE2, CHR 0x89, CHR 0xA5] @ '' 70'',
                    [CHR 0xF0, CHR 0x9F, CHR 0x8C, CHR 0xB1] @ '' Environmental Leader: '' @
                      name env_leader @ '' ('' @ fmt (esg_e env_leader) @ ''/100)''])))"

section \<open>Vocabulary of the specification\<close>

text \<open>
  The threshold table as the specification words it: the rows are tried from the top
  and the first row whose threshold the score reaches gives the label.
\<close>

definition rating_table :: "(xreal \<times> string) list" where
  "rating_table =
     [(Fin 80, ''A+ (Excellent)''), (Fin 70, ''A (Very Good)''), (Fin 60, ''B+ (Good)''),
      (Fin 50, ''B (Fair)''), (Fin 40, ''C+ (Below Average)'')]"

definition spec_rating :: "xreal \<Rightarrow> string" where
  "spec_rating score =
     (case find (\<lambda>(t, l). score \<ge> t) rating_table of
        Some (t, l) \<Rightarrow> l
      | None \<Rightarrow> ''C (Poor)'')"

text \<open>The ranking of the labels, best first: A+ > A > B+ > B > C+ > C.\<close>

definition rating_rank :: "string \<Rightarrow> nat" where
  "rating_rank l =
     (if l = ''A+ (Excellent)'' then 5
      else if l = ''A (Very Good)'' then 4
      else if l = ''B+ (Good)'' then 3
      else if l = ''B (Fair)'' then 2
      else if l = ''C+ (Below Average)'' then 1
      else 0)"

definition rating_labels :: "string list" where
  "rating_labels =
     [''A+ (Excellent)'', ''A (Very Good)'', ''B+ (Good)'', ''B (Fair)'',
      ''C+ (Below Average)'', ''C (Poor)'']"

text \<open>
  Position \<open>i\<close> holds the first occurrence of the largest (smallest) value of a column:
  no value is larger (smaller), and every earlier value is strictly smaller (larger).
\<close>

definition first_max_at :: "'a::linorder list \<Rightarrow> nat \<Rightarrow> bool" where
  "first_max_at xs i \<longleftrightarrow>
     i < length xs \<and> (\<forall>j < length xs. xs ! j \<le> xs ! i) \<and> (\<forall>j < i. xs ! j < xs ! i)"

definition first_min_at :: "'a::linorder list \<Rightarrow> nat \<Rightarrow> bool" where
  "first_min_at xs i \<longleftrightarrow>
     i < length xs \<and> (\<forall>j < length xs. xs ! i \<le> xs ! j) \<and> (\<forall>j < i. xs ! i < xs ! j)"

text \<open>
  Reading a decimal numeral: the number that a non-empty text of digits denotes, and
  nothing for any other text.
\<close>

definition digit_of :: "char \<Rightarrow> nat option" where
  "digit_of c = (let k = (of_char c :: nat) in if 48 \<le> k \<and> k \<le> 57 then Some (k - 48) else None)"

fun decimal_from :: "nat \<Rightarrow> string \<Rightarrow> nat option" where
  "decimal_from a [] = Some a"
| "decimal_from a (c # cs) =
     (case digit_of c of None \<Rightarrow> None | Some d \<Rightarrow> decimal_from (10 * a + d) cs)"

definition decimal :: "string \<Rightarrow> nat option" where
  "decimal s = (if s = [] then None else decimal_from 0 s)"

text \<open>
  The scores of the assets with a positive holding, and the closed interval from their
  minimum to their maximum. With no asset held there is no such interval, and NaN lies
  in no interval.
\<close>

definition held_scores :: "score_column \<Rightarrow> valued list \<Rightarrow> xreal list" where
  "held_scores c df = map (col_of c) (filter (\<lambda>r. Holding r > 0) df)"

definition within_held_range :: "score_column \<Rightarrow> valued list \<Rightarrow> num \<Rightarrow> bool" where
  "within_held_range c df w \<longleftrightarrow>
     held_scores c df \<noteq> [] \<and>
     (case w of None \<Rightarrow> False
      | Some x \<Rightarrow> Min (set (held_scores c df)) \<le> x \<and> x \<le> Max (set (held_scores c df)))"

text \<open>Observers of a result of \<^verbatim>\<open>calculate_portfolio_metrics\<close>.\<close>

definition result_metric ::
  "(metrics \<Rightarrow> num) \<Rightarrow> py_error + valued list \<times> metrics \<Rightarrow> py_error + num" where
  "result_metric w res = (case res of Inr (vs, m) \<Rightarrow> Inr (w m) | Inl e \<Rightarrow> Inl e)"

definition result_rows :: "py_error + valued list \<times> metrics \<Rightarrow> valued list" where
  "result_rows res = (case res of Inr (vs, m) \<Rightarrow> vs | Inl e \<Rightarrow> [])"

definition result_held ::
  "score_column \<Rightarrow> py_error + valued list \<times> metrics \<Rightarrow> xreal list" where
  "result_held c res = (case res of Inr (vs, m) \<Rightarrow> held_scores c vs | Inl e \<Rightarrow> [])"

definition metric_in_range ::
  "score_column \<Rightarrow> (metrics \<Rightarrow> num) \<Rightarrow> py_error + valued list \<times> metrics \<Rightarrow> bool" where
  "metric_in_range c w res =
     (case res of Inr (vs, m) \<Rightarrow> within_held_range c vs (w m) | Inl e \<Rightarrow> False)"

section \<open>Example inputs\<close>

text \<open>The example scenario of the specification.\<close>

definition ex_prices :: "cell price_row list" where
  "ex_prices =
     [\<lparr>p_market = ''BTCUSDT'', p_last_price = Numeric (Fin 50000)\<rparr>,
      \<lparr>p_market = ''ETHUSDT'', p_last_price = Numeric (Fin 3000)\<rparr>,
      \<lparr>p_market = ''XRPUSDT'', p_last_price = Numeric (Fin 1)\<rparr>]"

definition ex_esg :: "esg_row list" where
  "ex_esg =
     [\<lparr>e_market = ''BTCUSDT'', e_name = ''BTC'', e_esg_e = 40, e_esg_s = 40, e_esg_g = 40\<rparr>,
      \<lparr>e_market = ''ETHUSDT'', e_name = ''ETH'', e_esg_e = 70, e_esg_s = 70, e_esg_g = 70\<rparr>]"

definition ex_holdings :: "string \<rightharpoonup> real" where
  "ex_holdings = map_of [(''BTCUSDT'', 1), (''ETHUSDT'', 1)]"

text \<open>Holdings for which every value, sum and quotient of the scenario is exact.\<close>

definition even_holdings :: "string \<rightharpoonup> real" where
  "even_holdings = map_of [(''BTCUSDT'', 3), (''ETHUSDT'', 50)]"

text \<open>A price feed whose first price does not parse.\<close>

definition bad_prices :: "cell price_row list" where
  "bad_prices =
     [\<lparr>p_market = ''BTCUSDT'', p_last_price = Malformed ''n/a''\<rparr>,
      \<lparr>p_market = ''ETHUSDT'', p_last_price = Numeric (Fin 3000)\<rparr>]"

text \<open>A price feed whose only price does not parse.\<close>

definition unpriced :: "cell price_row list" where
  "unpriced = [\<lparr>p_market = ''BTCUSDT'', p_last_price = Malformed ''n/a''\<rparr>]"

text \<open>A holdings map with a negative quantity, and a price feed with a negative price.\<close>

definition short_holdings :: "string \<rightharpoonup> real" where
  "short_holdings = map_of [(''BTCUSDT'', -1), (''ETHUSDT'', 20)]"

definition negative_prices :: "cell price_row list" where
  "negative_prices =
     [\<lparr>p_market = ''BTCUSDT'', p_last_price = Numeric (Fin (-1000))\<rparr>,
      \<lparr>p_market = ''ETHUSDT'', p_last_price = Numeric (Fin 3000)\<rparr>]"

text \<open>
  Inputs on which \<^verbatim>\<open>float64\<close> arithmetic rounds: ESG components 55.3, 73.1 and 81.6; a
  quantity of 0.1 at a price of 3; and an asset with score 43 at a price of 50000.3.
\<close>

definition decimal_esg :: "esg_row list" where
  "decimal_esg =
     [\<lparr>e_market = ''BTCUSDT'', e_name = ''BTC'', e_esg_e = double_of 55.3,
       e_esg_s = double_of 73.1, e_esg_g = double_of 81.6\<rparr>]"

definition tenth_holdings :: "string \<rightharpoonup> real" where
  "tenth_holdings = map_of [(''BTCUSDT'', double_of 0.1)]"

definition price_of_three :: "cell price_row list" where
  "price_of_three = [\<lparr>p_market = ''BTCUSDT'', p_last_price = Numeric (Fin 3)\<rparr>]"

definition esg_43 :: "esg_row list" where
  "esg_43 =
     [\<lparr>e_market = ''BTCUSDT'', e_name = ''BTC'', e_esg_e = 43, e_esg_s = 43, e_esg_g = 43\<rparr>]"

definition decimal_price :: "cell price_row list" where
  "decimal_price = [\<lparr>p_market = ''BTCUSDT'', p_last_price = Numeric (Fin (double_of 50000.3))\<rparr>]"

definition one_holding :: "string \<rightharpoonup> real" where
  "one_holding = map_of [(''BTCUSDT'', 1)]"

text \<open>
  A valued table with ties: the first two rows share the highest score, the last two the
  lowest, and the second and third share the highest environmental score.
\<close>

definition tie_valued :: "valued list" where
  "tie_valued =
     [\<lparr>market = ''AAAUSDT'', last_price = Some (Fin 2), name = ''AAA'',
       esg_e = 30, esg_s = 70, esg_g = 80, ESG_Score = Fin 60,
       ESG_Rating = ''B+ (Good)'', Holding = 1, Value_USD = Some (Fin 2)\<rparr>,
      \<lparr>market = ''BBBUSDT'', last_price = Some (Fin 5), name = ''BBB'',
       esg_e = 90, esg_s = 50, esg_g = 40, ESG_Score = Fin 60,
       ESG_Rating = ''B+ (Good)'', Holding = 0, Value_USD = Some (Fin 0)\<rparr>,
      \<lparr>market = ''CCCUSDT'', last_price = Some (Fin 1), name = ''CCC'',
       esg_e = 90, esg_s = 20, esg_g = 10, ESG_Score = Fin 40,
       ESG_Rating = ''C+ (Below Average)'', Holding = 3, Value_USD = Some (Fin 3)\<rparr>,
      \<lparr>market = ''DDDUSDT'', last_price = Some (Fin 1), name = ''DDD'',
       esg_e = 40, esg_s = 40, esg_g = 40, ESG_Score = Fin 40,
       ESG_Rating = ''C+ (Below Average)'', Holding = 3, Value_USD = Some (Fin 3)\<rparr>]"

text \<open>Float printers for the examples: the integer part of a non-negative number.\<close>

definition ex_fmt :: "real \<Rightarrow> string" where
  "ex_fmt x = str_nat (nat \<lfloor>x\<rfloor>)"

fun ex_fmt1 :: "xreal \<Rightarrow> string" where
  "ex_fmt1 (Fin x) = ex_fmt x"
| "ex_fmt1 PInf = ''inf''"
| "ex_fmt1 NInf = ''-inf''"

section \<open>Facts about the numbers\<close>

lemma xreal_le [simp]:
  "Fin a \<le> Fin b \<longleftrightarrow> a \<le> b"
  "NInf \<le> y" "\<not> PInf \<le> Fin b" "\<not> PInf \<le> NInf" "\<not> Fin a \<le> NInf"
  by (simp_all add: less_eq_xreal_def)

lemma xreal_le_PInf [simp]: "x \<le> PInf"
  by (cases x) (simp_all add: less_eq_xreal_def)

lemma xreal_less [simp]:
  "Fin a < Fin b \<longleftrightarrow> a < b"
  "Fin a < PInf" "NInf < PInf" "NInf < Fin b"
  by (auto simp: less_xreal_def)

lemma xreal_not_less [simp]: "\<not> x < NInf" "\<not> PInf < x"
  by (cases x; simp add: less_xreal_def)+

lemma binade_correct:
  "2 powi k \<le> a \<Longrightarrow> a < 2 powi (k + 1) \<Longrightarrow> nat \<bar>k\<bar> \<le> n \<Longrightarrow> binade n a e = e + k"
proof (induction n arbitrary: a e k)
  case 0
  then show ?case by simp
next
  case (Suc n)
  have up: "(2::real) powi (j + 1) = 2 * 2 powi j" for j :: int
    by (simp add: power_int_add)
  show ?case
  proof (cases "2 \<le> a")
    case True
    have "1 \<le> k"
    proof (rule ccontr)
      assume "\<not> 1 \<le> k"
      then have "k + 1 \<le> 1" by simp
      then have "(2::real) powi (k + 1) \<le> 2 powi 1"
        by (intro power_int_increasing) simp_all
      with Suc.prems(2) True show False by simp
    qed
    moreover have "2 powi (k - 1) \<le> a / 2" "a / 2 < 2 powi (k - 1 + 1)"
      using Suc.prems(1,2) up [of "k - 1"] up [of k] by simp_all
    moreover have "nat \<bar>k - 1\<bar> \<le> n"
      using Suc.prems(3) \<open>1 \<le> k\<close> by simp
    ultimately have "binade n (a / 2) (e + 1) = e + 1 + (k - 1)"
      by (intro Suc.IH)
    with True show ?thesis by simp
  next
    case False
    show ?thesis
    proof (cases "a < 1")
      case True
      have "k \<le> - 1"
      proof (rule ccontr)
        assume "\<not> k \<le> - 1"
        then have "0 \<le> k" by simp
        then have "(2::real) powi 0 \<le> 2 powi k"
          by (intro power_int_increasing) simp_all
        with Suc.prems(1) True show False by simp
      qed
      moreover have "2 powi (k + 1) \<le> a * 2" "a * 2 < 2 powi (k + 1 + 1)"
        using Suc.prems(1,2) up [of k] up [of "k + 1"] by simp_all
      moreover have "nat \<bar>k + 1\<bar> \<le> n"
        using Suc.prems(3) \<open>k \<le> - 1\<close> by simp
      ultimately have "binade n (a * 2) (e - 1) = e - 1 + (k + 1)"
        by (intro Suc.IH)
      with True False show ?thesis by simp
    next
      case a1: False
      have "k = 0"
      proof (rule ccontr)
        assume "k \<noteq> 0"
        then consider "1 \<le> k" | "k + 1 \<le> 0" by linarith
        then show False
        proof cases
          case 1
          then have "(2::real) powi 1 \<le> 2 powi k"
            by (intro power_int_increasing) simp_all
          with Suc.prems(1) False show False by simp
        next
          case 2
          then have "(2::real) powi (k + 1) \<le> 2 powi 0"
            by (intro power_int_increasing) simp_all
          with Suc.prems(2) a1 show False by simp
        qed
      qed
      with False a1 show ?thesis by simp
    qed
  qed
qed

text \<open>Rounding a positive number whose binade is known.\<close>

lemma rnd_pos:
  assumes "2 powi k \<le> x" and "x < 2 powi (k + 1)" and "- 1022 \<le> k" and "k \<le> 1023"
  shows "rnd x =
     (let y = of_int (round_even (x / 2 powi (k - 52))) * 2 powi (k - 52)
      in if 2 ^ 1024 \<le> y then PInf else Fin y)"
proof -
  have "(0::real) < 2 powi k" by simp
  with assms(1) have x: "0 < x" by linarith
  have "nat \<bar>k\<bar> \<le> 2200" using assms(3,4) by simp
  from binade_correct [OF assms(1,2) this, of 0] have "binade 2200 x 0 = k" by simp
  moreover have "max (k - 52) (- 1074) = k - 52" using assms(3) by simp
  ultimately show ?thesis using x by (simp add: rnd_def Let_def)
qed

lemma rnd_minus: "rnd (- x) = xneg (rnd x)"
  by (simp add: rnd_def Let_def)

lemma round_even_of_int [simp]: "round_even (of_int m) = m"
  by (simp add: round_even_def)

lemma exp_below_53: "(2::int) ^ k < 2 ^ 53 \<Longrightarrow> k < 53"
  by (rule power_less_imp_less_exp [of 2]) simp_all

lemma below_overflow: "n < 2 ^ 53 \<Longrightarrow> \<not> 2 ^ 1024 \<le> (of_int n :: real)"
proof -
  assume "n < 2 ^ 53"
  then have "(of_int n :: real) < of_int (2 ^ 53)"
    by (simp only: of_int_less_iff)
  also have "\<dots> \<le> (2::real) ^ 1024"
    by simp
  finally show "\<not> 2 ^ 1024 \<le> (of_int n :: real)"
    by simp
qed

text \<open>Integers below \<open>2 ^ 53\<close> are \<^verbatim>\<open>float64\<close> numbers: rounding leaves them.\<close>

lemma rnd_int_pos:
  assumes "0 < n" and "n < 2 ^ 53"
  shows "rnd (of_int n) = Fin (of_int n)"
proof -
  let ?x = "of_int n :: real"
  from assms(1) have "1 \<le> nat n" by simp
  from ex_power_ivl1 [OF _ this, of 2] obtain k where "2 ^ k \<le> nat n" "nat n < 2 ^ (k + 1)"
    by auto
  with assms(1) have kn: "2 ^ k \<le> n" "n < 2 ^ (k + 1)"
    by (simp_all add: le_nat_iff nat_less_iff)
  from kn(1) assms(2) have "(2::int) ^ k < 2 ^ 53" by linarith
  then have "k < 53" by (rule exp_below_53)
  then have k52: "k \<le> 52" by simp
  have a1: "2 powi int k \<le> ?x"
  proof -
    have "(of_int (2 ^ k) :: real) \<le> of_int n" using kn(1) by (simp only: of_int_le_iff)
    then show ?thesis by simp
  qed
  have a2: "?x < 2 powi (int k + 1)"
  proof -
    have "(of_int n :: real) < of_int (2 ^ (k + 1))" using kn(2) by (simp only: of_int_less_iff)
    moreover have "(2::real) powi (int k + 1) = 2 ^ (k + 1)"
    proof -
      have "(2::real) powi (int k + 1) = 2 powi int (Suc k)" by (simp add: add.commute)
      also have "\<dots> = 2 ^ Suc k" by (rule power_int_of_nat)
      finally show ?thesis by simp
    qed
    ultimately show ?thesis by simp
  qed
  have a3: "- 1022 \<le> int k" "int k \<le> 1023" using k52 by simp_all
  have e: "int k - 52 = - int (52 - k)" using k52 by simp
  have q: "(2::real) powi (int k - 52) = 1 / 2 ^ (52 - k)"
    unfolding e by (simp add: power_int_minus divide_inverse)
  have d: "?x / 2 powi (int k - 52) = of_int (n * 2 ^ (52 - k))"
    by (simp add: q)
  have y: "of_int (round_even (?x / 2 powi (int k - 52))) * 2 powi (int k - 52) = ?x"
    unfolding d round_even_of_int by (simp add: q)
  have "rnd ?x = (if 2 ^ 1024 \<le> ?x then PInf else Fin ?x)"
    unfolding rnd_pos [OF a1 a2 a3] Let_def y ..
  with below_overflow [OF assms(2)] show ?thesis by (simp only: if_False)
qed

lemma rnd_numeral [simp]:
  "numeral w < (2::int) ^ 53 \<Longrightarrow> rnd (numeral w) = Fin (numeral w)"
  using rnd_int_pos [of "numeral w"] by simp

lemma rnd_neg_numeral [simp]:
  "numeral w < (2::int) ^ 53 \<Longrightarrow> rnd (- numeral w) = Fin (- numeral w)"
  using rnd_minus [of "numeral w"] by simp

lemma rnd_0 [simp]: "rnd 0 = Fin 0"
  by (simp add: rnd_def)

lemma rnd_1 [simp]: "rnd 1 = Fin 1"
  using rnd_int_pos [of 1] by simp

text \<open>The roundings of the examples.\<close>

lemma double_of_half: "double_of (1 / 2) = 1 / 2"
  by (simp add: double_of_def rnd_pos [where k = "-1"] round_even_def Let_def)

lemma double_of_tenth: "double_of (1 / 10) = 3602879701896397 / 36028797018963968"
  by (simp add: double_of_def rnd_pos [where k = "-4"] round_even_def Let_def)

lemma double_of_553: "double_of (553 / 10) = 3891391553024819 / 70368744177664"
  by (simp add: double_of_def rnd_pos [where k = 5] round_even_def Let_def)

lemma double_of_731: "double_of (731 / 10) = 2571977599693619 / 35184372088832"
  by (simp add: double_of_def rnd_pos [where k = 6] round_even_def Let_def)

lemma double_of_816: "double_of (408 / 5) = 2871044762448691 / 35184372088832"
  by (simp add: double_of_def rnd_pos [where k = 6] round_even_def Let_def)

lemma double_of_price: "double_of (500003 / 10) = 3435994452643021 / 68719476736"
  by (simp add: double_of_def rnd_pos [where k = 15] round_even_def Let_def)

lemma rnd_sum1:
  "rnd (9035346752412057 / 70368744177664) = Fin (1129418344051507 / 8796093022208)"
  by (simp add: rnd_pos [where k = 7] round_even_def Let_def)

lemma rnd_sum2:
  "rnd (7388718138654719 / 35184372088832) = Fin (7388718138654719 / 35184372088832)"
  by (simp add: rnd_pos [where k = 7] round_even_def Let_def)

lemma rnd_mean:
  "rnd (7388718138654719 / 105553116266496) = Fin (4925812092436479 / 70368744177664)"
  by (simp add: rnd_pos [where k = 6] round_even_def Let_def)

lemma rnd_three_tenths:
  "rnd (10808639105689191 / 36028797018963968) = Fin (1351079888211149 / 4503599627370496)"
  by (simp add: rnd_pos [where k = "-2"] round_even_def Let_def)

lemma rnd_price:
  "rnd (3435994452643021 / 68719476736) = Fin (3435994452643021 / 68719476736)"
  by (simp add: rnd_pos [where k = 15] round_even_def Let_def)

lemma rnd_43_price:
  "rnd (147747761463649903 / 68719476736) = Fin (4617117545739059 / 2147483648)"
  by (simp add: rnd_pos [where k = 21] round_even_def Let_def)

lemma rnd_43_sum:
  "rnd (4617117545739059 / 2147483648) = Fin (4617117545739059 / 2147483648)"
  by (simp add: rnd_pos [where k = 21] round_even_def Let_def)

lemma rnd_43_quot:
  "rnd (147747761463649888 / 3435994452643021) = Fin (6051711999279103 / 140737488355328)"
  by (simp add: rnd_pos [where k = 5] round_even_def Let_def)

lemmas f64_defs =
  f64_arith_def ieee_arith_def ieee_mean3_def nan_add_def

lemmas exact_defs =
  exact_arith_def ieee_arith_def ieee_mean3_def nan_add_def

section \<open>Basic facts about the row functions\<close>

lemmas merge_defs =
  merge_price_and_esg_def compute_weighted_esg_def merge_inner_def coerce_prices_def
  join_pair_def add_rating_def add_score_def

lemma add_score_fields [simp]:
  "market (add_score A j) = market j"
  "name (add_score A j) = name j"
  "last_price (add_score A j) = last_price j"
  "esg_e (add_score A j) = esg_e j"
  "esg_s (add_score A j) = esg_s j"
  "esg_g (add_score A j) = esg_g j"
  "ESG_Score (add_score A j) = mean3 A (esg_e j) (esg_s j) (esg_g j)"
  by (simp_all add: add_score_def)

lemma add_rating_fields [simp]:
  "market (add_rating r) = market r"
  "name (add_rating r) = name r"
  "last_price (add_rating r) = last_price r"
  "esg_e (add_rating r) = esg_e r"
  "esg_s (add_rating r) = esg_s r"
  "esg_g (add_rating r) = esg_g r"
  "ESG_Score (add_rating r) = ESG_Score r"
  "ESG_Rating (add_rating r) = categorize_esg_score (ESG_Score r)"
  by (simp_all add: add_rating_def)

lemma market_join_pair [simp]: "market (join_pair p e) = p_market p"
  by (simp add: join_pair_def)

lemma markets_coerce [simp]: "map p_market (coerce_prices P) = map p_market P"
  by (simp add: coerce_prices_def comp_def)

lemma ex_merged:
  "merge_price_and_esg f64_arith ex_prices ex_esg =
     [\<lparr>market = ''BTCUSDT'', last_price = Some (Fin 50000), name = ''BTC'',
       esg_e = 40, esg_s = 40, esg_g = 40, ESG_Score = Fin 40,
       ESG_Rating = ''C+ (Below Average)''\<rparr>,
      \<lparr>market = ''ETHUSDT'', last_price = Some (Fin 3000), name = ''ETH'',
       esg_e = 70, esg_s = 70, esg_g = 70, ESG_Score = Fin 70,
       ESG_Rating = ''A (Very Good)''\<rparr>]"
  by (simp add: merge_defs ex_prices_def ex_esg_def categorize_esg_score_def f64_defs)

section \<open>The rating function\<close>

lemma categorize_spec: "categorize_esg_score s = spec_rating s"
  by (simp add: categorize_esg_score_def spec_rating_def rating_table_def)

lemma merged_rows:
  "a \<in> set (merge_price_and_esg A P E) \<Longrightarrow>
   ESG_Score a = mean3 A (esg_e a) (esg_s a) (esg_g a) \<and>
   ESG_Rating a = categorize_esg_score (ESG_Score a)"
  by (auto simp: merge_price_and_esg_def compute_weighted_esg_def)

text \<open>
  C6. The rating is monotone in the score: a strictly higher score never gets a label
  that ranks strictly lower. The scores range over all \<^verbatim>\<open>float64\<close> values but NaN; for
  finite scores this is the statement about real numbers.
\<close>

theorem rating_monotone:
  "y < x \<Longrightarrow> rating_rank (categorize_esg_score y) \<le> rating_rank (categorize_esg_score x)"
  by (cases x; cases y) (simp_all add: categorize_esg_score_def rating_rank_def)

theorem rating_monotone_witness:
  "Fin 65 < Fin 75 \<and> rating_rank (categorize_esg_score (Fin 65)) \<le> rating_rank (categorize_esg_score (Fin 75))
   \<and> categorize_esg_score (Fin 65) = ''B+ (Good)'' \<and> categorize_esg_score (Fin 75) = ''A (Very Good)''"
proof -
  have h: "Fin 65 < Fin 75" by simp
  from rating_monotone [OF h] h show ?thesis
    by (simp add: categorize_esg_score_def)
qed

text \<open>
  C10. The rating function is defined on every score, also below 0 and above 100 and on
  the infinities: it always returns one of the six labels, every score below 40 gets
  C (Poor) and every score of 80 or more gets A+ (Excellent).
\<close>

theorem categorize_total:
  "categorize_esg_score s \<in> set rating_labels \<and>
   (s < Fin 40 \<longrightarrow> categorize_esg_score s = ''C (Poor)'') \<and>
   (Fin 80 \<le> s \<longrightarrow> categorize_esg_score s = ''A+ (Excellent)'') \<and>
   distinct rating_labels \<and> length rating_labels = 6"
  by (cases s) (simp_all add: categorize_esg_score_def rating_labels_def)

theorem categorize_total_witness:
  "Fin (-1000) < Fin 40 \<and> categorize_esg_score (Fin (-1000)) = ''C (Poor)'' \<and>
   Fin 80 \<le> Fin 1000 \<and> categorize_esg_score (Fin 1000) = ''A+ (Excellent)''"
  using categorize_total [of "Fin (-1000)"] categorize_total [of "Fin 1000"] by simp

text \<open>
  C5, as the code has it. In every row of the merged table the ESG score is the value
  that the arithmetic of the columns gives for \<^verbatim>\<open>(esg_e + esg_s + esg_g) / 3\<close>; it is the
  mean of the three components whenever that evaluation is exact. The rating is the
  label that the specification's threshold table gives for that score, read top-down
  with the first match winning (80, 70, 60, 50, 40, otherwise C (Poor)).
\<close>

theorem merged_score_and_rating:
  "\<forall>a \<in> set (merge_price_and_esg A P E).
     ESG_Score a = mean3 A (esg_e a) (esg_s a) (esg_g a) \<and>
     (mean3 A (esg_e a) (esg_s a) (esg_g a) = mean3 exact_arith (esg_e a) (esg_s a) (esg_g a) \<longrightarrow>
        ESG_Score a = Fin ((esg_e a + esg_s a + esg_g a) / 3)) \<and>
     ESG_Rating a = spec_rating (ESG_Score a)"
proof
  fix a assume "a \<in> set (merge_price_and_esg A P E)"
  from merged_rows [OF this] show
    "ESG_Score a = mean3 A (esg_e a) (esg_s a) (esg_g a) \<and>
     (mean3 A (esg_e a) (esg_s a) (esg_g a) = mean3 exact_arith (esg_e a) (esg_s a) (esg_g a) \<longrightarrow>
        ESG_Score a = Fin ((esg_e a + esg_s a + esg_g a) / 3)) \<and>
     ESG_Rating a = spec_rating (ESG_Score a)"
    by (simp add: categorize_spec exact_defs)
qed

theorem merged_score_and_rating_witness:
  "hd (merge_price_and_esg f64_arith ex_prices ex_esg) \<in> set (merge_price_and_esg f64_arith ex_prices ex_esg) \<and>
   mean3 f64_arith 40 40 40 = mean3 exact_arith 40 40 40 \<and>
   ESG_Score (hd (merge_price_and_esg f64_arith ex_prices ex_esg)) = Fin 40 \<and>
   ESG_Rating (hd (merge_price_and_esg f64_arith ex_prices ex_esg)) = ''C+ (Below Average)''"
proof -
  let ?a = "hd (merge_price_and_esg f64_arith ex_prices ex_esg)"
  have m: "?a \<in> set (merge_price_and_esg f64_arith ex_prices ex_esg)"
    by (simp add: ex_merged)
  have f: "esg_e ?a = 40" "esg_s ?a = 40" "esg_g ?a = 40"
    by (simp_all add: ex_merged)
  have x: "mean3 f64_arith 40 40 40 = mean3 exact_arith 40 40 40"
    by (simp add: f64_defs exact_defs)
  from merged_score_and_rating [of f64_arith ex_prices ex_esg] m
  have "(mean3 f64_arith (esg_e ?a) (esg_s ?a) (esg_g ?a) =
           mean3 exact_arith (esg_e ?a) (esg_s ?a) (esg_g ?a) \<longrightarrow>
          ESG_Score ?a = Fin ((esg_e ?a + esg_s ?a + esg_g ?a) / 3)) \<and>
        ESG_Rating ?a = spec_rating (ESG_Score ?a)"
    by blast
  with f m x show ?thesis
    by (simp add: spec_rating_def rating_table_def)
qed

text \<open>
  C5, as the specification words it, fails: with the components 55.3, 73.1 and 81.6 (as
  \<^verbatim>\<open>float64\<close> numbers) the two rounded additions and the rounded division give
  69.99999999999999 (the number \<open>4925812092436479 / 2 ^ 46\<close>), which is not the mean of the
  three components.
\<close>

theorem mean_is_rounded:
  "map esg_e (merge_price_and_esg f64_arith ex_prices decimal_esg) = [3891391553024819 / 70368744177664] \<and>
   map esg_s (merge_price_and_esg f64_arith ex_prices decimal_esg) = [2571977599693619 / 35184372088832] \<and>
   map esg_g (merge_price_and_esg f64_arith ex_prices decimal_esg) = [2871044762448691 / 35184372088832] \<and>
   map ESG_Score (merge_price_and_esg f64_arith ex_prices decimal_esg) =
     [Fin (4925812092436479 / 70368744177664)] \<and>
   (3891391553024819 / 70368744177664 + 2571977599693619 / 35184372088832 +
      2871044762448691 / 35184372088832) / 3 \<noteq> (4925812092436479 / 70368744177664 :: real)"
  by (simp add: merge_defs ex_prices_def decimal_esg_def f64_defs
      double_of_553 double_of_731 double_of_816 rnd_sum1 rnd_sum2 rnd_mean)

section \<open>The merge engine\<close>

lemma markets_merged:
  "map market (merge_price_and_esg A P E) = map market (merge_inner (coerce_prices P) E)"
  by (simp add: merge_price_and_esg_def compute_weighted_esg_def comp_def)

lemma count_key_distinct:
  "distinct (map e_market E) \<Longrightarrow>
   length (filter (\<lambda>e. e_market e = k) E) = (if k \<in> e_market ` set E then 1 else 0)"
proof (induction E)
  case Nil
  then show ?case by simp
next
  case (Cons e E)
  then show ?case by (auto simp: image_iff)
qed

lemma markets_merge_inner:
  assumes "distinct (map e_market E)"
  shows "map market (merge_inner L E) = filter (\<lambda>k. k \<in> e_market ` set E) (map p_market L)"
proof (induction L)
  case Nil
  show ?case by (simp add: merge_inner_def)
next
  case (Cons p L)
  have "map market (merge_inner (p # L) E) =
        replicate (length (filter (\<lambda>e. e_market e = p_market p) E)) (p_market p)
          @ map market (merge_inner L E)"
    by (simp add: merge_inner_def comp_def map_replicate_const)
  then show ?case
    using Cons count_key_distinct [OF assms, of "p_market p"] by simp
qed

lemma join_pair_in_merge_inner:
  "p \<in> set L \<Longrightarrow> e \<in> set E \<Longrightarrow> e_market e = p_market p \<Longrightarrow>
   join_pair p e \<in> set (merge_inner L E)"
  by (auto simp: merge_inner_def)

text \<open>
  C3. When the symbols are unique within the price table and within the ESG table, the
  merged table has exactly one row for every symbol that occurs in both tables and no
  other row: its length is the size of the intersection of the two symbol sets, its
  symbols are distinct and are exactly that intersection. An empty table on either side
  gives an empty result.
\<close>

theorem merge_join_correct:
  assumes "distinct (map p_market P)" and "distinct (map e_market E)"
  shows "length (merge_price_and_esg A P E) = card (set (map p_market P) \<inter> set (map e_market E))
       \<and> distinct (map market (merge_price_and_esg A P E))
       \<and> set (map market (merge_price_and_esg A P E)) = set (map p_market P) \<inter> set (map e_market E)
       \<and> merge_price_and_esg A [] E = [] \<and> merge_price_and_esg A P [] = []"
proof -
  let ?ks = "map market (merge_price_and_esg A P E)"
  have ks: "?ks = filter (\<lambda>k. k \<in> e_market ` set E) (map p_market P)"
    by (simp add: markets_merged markets_merge_inner [OF assms(2)])
  have d: "distinct ?ks"
    unfolding ks using assms(1) by simp
  have s: "set ?ks = set (map p_market P) \<inter> set (map e_market E)"
    unfolding ks by auto
  have "length (merge_price_and_esg A P E) = length ?ks"
    by simp
  also have "\<dots> = card (set ?ks)"
    using distinct_card [OF d] by simp
  finally have l: "length (merge_price_and_esg A P E) =
      card (set (map p_market P) \<inter> set (map e_market E))"
    using s by simp
  have e1: "merge_price_and_esg A [] E = []"
    by (simp add: merge_defs)
  have e2: "merge_price_and_esg A P [] = []"
    by (simp add: merge_defs)
  from l d s e1 e2 show ?thesis by blast
qed

theorem merge_join_correct_witness:
  "distinct (map p_market ex_prices) \<and> distinct (map e_market ex_esg) \<and>
   card (set (map p_market ex_prices) \<inter> set (map e_market ex_esg)) = 2 \<and>
   set (map p_market ex_prices) \<inter> set (map e_market ex_esg) = {''BTCUSDT'', ''ETHUSDT''}"
proof -
  have d1: "distinct (map p_market ex_prices)"
    by (simp add: ex_prices_def)
  have d2: "distinct (map e_market ex_esg)"
    by (simp add: ex_esg_def)
  from merge_join_correct [OF d1 d2, of f64_arith] d1 d2 show ?thesis
    by (simp add: ex_merged)
qed

text \<open>
  C1, as the code has it. A price row whose \<^verbatim>\<open>last_price\<close> does not parse is not
  excluded from the merged table: whenever its symbol has an ESG entry, the merged table
  has a row for that symbol, with the ESG entry's name and with a missing
  \<^verbatim>\<open>last_price\<close>.
\<close>

theorem malformed_price_rows_are_joined:
  assumes "p \<in> set P" and "p_last_price p = Malformed s"
    and "e \<in> set E" and "e_market e = p_market p"
  shows "\<exists>a \<in> set (merge_price_and_esg A P E).
           market a = p_market p \<and> name a = e_name e \<and> last_price a = None"
proof -
  let ?q = "\<lparr>p_market = p_market p, p_last_price = to_numeric_coerce (p_last_price p)\<rparr>"
  let ?a = "add_rating (add_score A (join_pair ?q e))"
  have "?q \<in> set (coerce_prices P)"
    using assms(1) by (auto simp: coerce_prices_def)
  then have "join_pair ?q e \<in> set (merge_inner (coerce_prices P) E)"
    using assms(3,4) by (intro join_pair_in_merge_inner) simp_all
  then have "?a \<in> set (merge_price_and_esg A P E)"
    by (simp add: merge_price_and_esg_def compute_weighted_esg_def)
  moreover have "name (join_pair ?q e) = e_name e" "last_price (join_pair ?q e) = None"
    using assms(2) by (simp_all add: join_pair_def)
  ultimately show ?thesis
    by (intro bexI [of _ ?a]) simp_all
qed

theorem malformed_price_rows_are_joined_witness:
  "hd bad_prices \<in> set bad_prices \<and> p_last_price (hd bad_prices) = Malformed ''n/a'' \<and>
   hd ex_esg \<in> set ex_esg \<and> e_market (hd ex_esg) = p_market (hd bad_prices) \<and>
   (\<exists>a \<in> set (merge_price_and_esg f64_arith bad_prices ex_esg).
      market a = ''BTCUSDT'' \<and> name a = ''BTC'' \<and> last_price a = None)"
proof -
  have h: "hd bad_prices \<in> set bad_prices" "p_last_price (hd bad_prices) = Malformed ''n/a''"
    "hd ex_esg \<in> set ex_esg" "e_market (hd ex_esg) = p_market (hd bad_prices)"
    by (simp_all add: bad_prices_def ex_esg_def)
  have n: "p_market (hd bad_prices) = ''BTCUSDT''" "e_name (hd ex_esg) = ''BTC''"
    by (simp_all add: bad_prices_def ex_esg_def)
  from malformed_price_rows_are_joined [OF h, of f64_arith] h show ?thesis
    unfolding n by blast
qed

text \<open>
  C1, as the specification words it, fails: with a first price that does not parse, the
  merged table still has the row of that symbol, and its \<^verbatim>\<open>last_price\<close> is missing.
\<close>

theorem malformed_price_row_kept:
  "map market (merge_price_and_esg f64_arith bad_prices ex_esg) = [''BTCUSDT'', ''ETHUSDT''] \<and>
   map last_price (merge_price_and_esg f64_arith bad_prices ex_esg) = [None, Some (Fin 3000)]"
  by (simp add: merge_defs bad_prices_def ex_esg_def)

section \<open>The insight generator\<close>

lemma scan_best_max:
  "b < length pre \<Longrightarrow> bv = pre ! b \<Longrightarrow> first_max_at pre b \<Longrightarrow>
   first_max_at (pre @ xs) (scan_best (\<lambda>a b. b < a) xs (length pre) b bv)"
proof (induction xs arbitrary: pre b bv)
  case Nil
  then show ?case by simp
next
  case (Cons x xs)
  show ?case
  proof (cases "bv < x")
    case True
    have "first_max_at (pre @ [x]) (length pre)"
      using Cons.prems True
      by (fastforce simp: first_max_at_def nth_append less_Suc_eq)
    from Cons.IH [of "length pre" "pre @ [x]" x, OF _ _ this] True
    show ?thesis by simp
  next
    case False
    have "first_max_at (pre @ [x]) b"
      using Cons.prems False
      by (auto simp: first_max_at_def nth_append less_Suc_eq)
    from Cons.IH [of b "pre @ [x]" bv, OF _ _ this] False Cons.prems(1,2)
    show ?thesis by (simp add: nth_append)
  qed
qed

lemma scan_best_min:
  "b < length pre \<Longrightarrow> bv = pre ! b \<Longrightarrow> first_min_at pre b \<Longrightarrow>
   first_min_at (pre @ xs) (scan_best (\<lambda>a b. a < b) xs (length pre) b bv)"
proof (induction xs arbitrary: pre b bv)
  case Nil
  then show ?case by simp
next
  case (Cons x xs)
  show ?case
  proof (cases "x < bv")
    case True
    have "first_min_at (pre @ [x]) (length pre)"
      using Cons.prems True
      by (fastforce simp: first_min_at_def nth_append less_Suc_eq)
    from Cons.IH [of "length pre" "pre @ [x]" x, OF _ _ this] True
    show ?thesis by simp
  next
    case False
    have "first_min_at (pre @ [x]) b"
      using Cons.prems False
      by (auto simp: first_min_at_def nth_append less_Suc_eq)
    from Cons.IH [of b "pre @ [x]" bv, OF _ _ this] False Cons.prems(1,2)
    show ?thesis by (simp add: nth_append)
  qed
qed

lemma idxmax_first:
  "xs \<noteq> [] \<Longrightarrow> \<exists>i. idxmax xs = Inr i \<and> first_max_at xs i"
proof (cases xs)
  case Nil
  assume "xs \<noteq> []" with Nil show ?thesis by simp
next
  case (Cons x rest)
  have "first_max_at [x] 0" by (simp add: first_max_at_def)
  from scan_best_max [of 0 "[x]" x rest, OF _ _ this]
  show ?thesis by (simp add: idxmax_def Cons)
qed

lemma idxmin_first:
  "xs \<noteq> [] \<Longrightarrow> \<exists>i. idxmin xs = Inr i \<and> first_min_at xs i"
proof (cases xs)
  case Nil
  assume "xs \<noteq> []" with Nil show ?thesis by simp
next
  case (Cons x rest)
  have "first_min_at [x] 0" by (simp add: first_min_at_def)
  from scan_best_min [of 0 "[x]" x rest, OF _ _ this]
  show ?thesis by (simp add: idxmin_def Cons)
qed

lemma first_max_unique: "first_max_at xs i \<Longrightarrow> first_max_at xs j \<Longrightarrow> i = j"
  unfolding first_max_at_def by (metis linorder_neqE_nat not_less)

lemma first_min_unique: "first_min_at xs i \<Longrightarrow> first_min_at xs j \<Longrightarrow> i = j"
  unfolding first_min_at_def by (metis linorder_neqE_nat not_less)

lemma digit_of_digit_char: "d < 10 \<Longrightarrow> digit_of (digit_char d) = Some d"
  by (simp add: digit_of_def digit_char_def Let_def)

lemma decimal_from_append:
  "decimal_from a (xs @ ys) =
     (case decimal_from a xs of None \<Rightarrow> None | Some b \<Rightarrow> decimal_from b ys)"
  by (induction xs arbitrary: a) (simp_all split: option.splits)

lemma decimal_from_str_nat: "decimal_from 0 (str_nat n) = Some n"
proof (induction n rule: str_nat.induct)
  case (1 n)
  show ?case
  proof (cases "n < 10")
    case True
    then show ?thesis
      by (subst str_nat.simps) (simp add: digit_of_digit_char)
  next
    case False
    with 1 have "decimal_from 0 (str_nat (n div 10)) = Some (n div 10)" by simp
    with False show ?thesis
      by (subst str_nat.simps) (simp add: decimal_from_append digit_of_digit_char)
  qed
qed

lemma str_nat_not_empty: "str_nat n \<noteq> []"
  by (subst str_nat.simps) simp

lemma decimal_str_nat: "decimal (str_nat n) = Some n"
  by (simp add: decimal_def str_nat_not_empty decimal_from_str_nat)

text \<open>
  C8. On a non-empty valued table, \<^verbatim>\<open>get_esg_insights\<close> returns exactly four
  strings, in this order: the line that names the asset with the highest ESG score and
  prints that score, the line that names the asset with the lowest ESG score and prints
  it, the line with the count of assets whose ESG score is at least 70 and the number of
  assets, both as decimal numerals, and the line that names the asset with the highest
  environmental score (whatever its ESG score) and prints that score. Among equal
  extremes the first row in input order is taken.
\<close>

theorem insights_four_facts:
  assumes "df \<noteq> []"
  shows "\<exists>b w l high total.
           first_max_at (map ESG_Score df) b \<and>
           first_min_at (map ESG_Score df) w \<and>
           first_max_at (map esg_e df) l \<and>
           decimal high = Some (length (filter (\<lambda>r. Fin 70 \<le> ESG_Score r) df)) \<and>
           decimal total = Some (length df) \<and>
           get_esg_insights fmt1 fmt df =
             Inr [[CHR 0xF0, CHR 0x9F, CHR 0x8F, CHR 0x86] @ '' Highest ESG Score: '' @
                    name (df ! b) @ '' ('' @ fmt1 (ESG_Score (df ! b)) @ '')'',
                  [CHR 0xE2, CHR 0x9A, CHR 0xA0, CHR 0xEF, CHR 0xB8, CHR 0x8F] @
                    '' Lowest ESG Score: '' @
                    name (df ! w) @ '' ('' @ fmt1 (ESG_Score (df ! w)) @ '')'',
                  [CHR 0xF0, CHR 0x9F, CHR 0x93, CHR 0x8A] @ '' '' @ high @ ''/'' @ total @
                    '' assets have ESG scores '' @ [CHR 0xE2, CHR 0x89, CHR 0xA5] @ '' 70'',
                  [CHR 0xF0, CHR 0x9F, CHR 0x8C, CHR 0xB1] @ '' Environmental Leader: '' @
                    name (df ! l) @ '' ('' @ fmt (esg_e (df ! l)) @ ''/100)'']"
proof -
  from assms obtain b where b: "idxmax (map ESG_Score df) = Inr b" "first_max_at (map ESG_Score df) b"
    using idxmax_first [of "map ESG_Score df"] by auto
  from assms obtain w where w: "idxmin (map ESG_Score df) = Inr w" "first_min_at (map ESG_Score df) w"
    using idxmin_first [of "map ESG_Score df"] by auto
  from assms obtain l where l: "idxmax (map esg_e df) = Inr l" "first_max_at (map esg_e df) l"
    using idxmax_first [of "map esg_e df"] by auto
  let ?high = "str_nat (length (filter (\<lambda>r. Fin 70 \<le> ESG_Score r) df))"
  let ?total = "str_nat (length df)"
  have "get_esg_insights fmt1 fmt df =
             Inr [[CHR 0xF0, CHR 0x9F, CHR 0x8F, CHR 0x86] @ '' Highest ESG Score: '' @
                    name (df ! b) @ '' ('' @ fmt1 (ESG_Score (df ! b)) @ '')'',
                  [CHR 0xE2, CHR 0x9A, CHR 0xA0, CHR 0xEF, CHR 0xB8, CHR 0x8F] @
                    '' Lowest ESG Score: '' @
                    name (df ! w) @ '' ('' @ fmt1 (ESG_Score (df ! w)) @ '')'',
                  [CHR 0xF0, CHR 0x9F, CHR 0x93, CHR 0x8A] @ '' '' @ ?high @ ''/'' @ ?total @
                    '' assets have ESG scores '' @ [CHR 0xE2, CHR 0x89, CHR 0xA5] @ '' 70'',
                  [CHR 0xF0, CHR 0x9F, CHR 0x8C, CHR 0xB1] @ '' Environmental Leader: '' @
                    name (df ! l) @ '' ('' @ fmt (esg_e (df ! l)) @ ''/100)'']"
    by (simp add: get_esg_insights_def and_then_def Let_def b(1) w(1) l(1))
  with b(2) w(2) l(2) decimal_str_nat [of "length (filter (\<lambda>r. Fin 70 \<le> ESG_Score r) df)"]
    decimal_str_nat [of "length df"]
  show ?thesis by blast
qed

theorem insights_four_facts_witness:
  "tie_valued \<noteq> [] \<and>
   (\<exists>high total. decimal high = Some 0 \<and> decimal total = Some 4 \<and>
     get_esg_insights ex_fmt1 ex_fmt tie_valued =
       Inr [[CHR 0xF0, CHR 0x9F, CHR 0x8F, CHR 0x86] @ '' Highest ESG Score: AAA (60)'',
            [CHR 0xE2, CHR 0x9A, CHR 0xA0, CHR 0xEF, CHR 0xB8, CHR 0x8F] @
              '' Lowest ESG Score: CCC (40)'',
            [CHR 0xF0, CHR 0x9F, CHR 0x93, CHR 0x8A] @ '' '' @ high @ ''/'' @ total @
              '' assets have ESG scores '' @ [CHR 0xE2, CHR 0x89, CHR 0xA5] @ '' 70'',
            [CHR 0xF0, CHR 0x9F, CHR 0x8C, CHR 0xB1] @ '' Environmental Leader: BBB (90/100)''])"
proof -
  have ne: "tie_valued \<noteq> []" by (simp add: tie_valued_def)
  from insights_four_facts [OF ne, of ex_fmt1 ex_fmt] obtain b w l high total where
    b: "first_max_at (map ESG_Score tie_valued) b" and
    w: "first_min_at (map ESG_Score tie_valued) w" and
    l: "first_max_at (map esg_e tie_valued) l" and
    h: "decimal high = Some (length (filter (\<lambda>r. Fin 70 \<le> ESG_Score r) tie_valued))" and
    t: "decimal total = Some (length tie_valued)" and
    r: "get_esg_insights ex_fmt1 ex_fmt tie_valued =
             Inr [[CHR 0xF0, CHR 0x9F, CHR 0x8F, CHR 0x86] @ '' Highest ESG Score: '' @
                    name (tie_valued ! b) @ '' ('' @ ex_fmt1 (ESG_Score (tie_valued ! b)) @ '')'',
                  [CHR 0xE2, CHR 0x9A, CHR 0xA0, CHR 0xEF, CHR 0xB8, CHR 0x8F] @
                    '' Lowest ESG Score: '' @
                    name (tie_valued ! w) @ '' ('' @ ex_fmt1 (ESG_Score (tie_valued ! w)) @ '')'',
                  [CHR 0xF0, CHR 0x9F, CHR 0x93, CHR 0x8A] @ '' '' @ high @ ''/'' @ total @
                    '' assets have ESG scores '' @ [CHR 0xE2, CHR 0x89, CHR 0xA5] @ '' 70'',
                  [CHR 0xF0, CHR 0x9F, CHR 0x8C, CHR 0xB1] @ '' Environmental Leader: '' @
                    name (tie_valued ! l) @ '' ('' @ ex_fmt (esg_e (tie_valued ! l)) @ ''/100)'']"
    by blast
  have "first_max_at (map ESG_Score tie_valued) 0"
    by (simp add: first_max_at_def tie_valued_def less_Suc_eq numeral_nat nth_Cons')
  with b have b0: "b = 0" by (rule first_max_unique)
  have "first_min_at (map ESG_Score tie_valued) 2"
    by (auto simp add: first_min_at_def tie_valued_def less_Suc_eq numeral_nat nth_Cons')
  with w have w2: "w = 2" by (rule first_min_unique)
  have "first_max_at (map esg_e tie_valued) 1"
    by (auto simp add: first_max_at_def tie_valued_def less_Suc_eq numeral_nat nth_Cons')
  with l have l1: "l = 1" by (rule first_max_unique)
  have c: "length (filter (\<lambda>r. Fin 70 \<le> ESG_Score r) tie_valued) = 0" "length tie_valued = 4"
    by (simp_all add: tie_valued_def)
  have s: "str_nat 60 = ''60''" "str_nat 40 = ''40''" "str_nat 90 = ''90''"
    by code_simp+
  have v: "name (tie_valued ! 0) = ''AAA''" "ex_fmt1 (ESG_Score (tie_valued ! 0)) = ''60''"
    "name (tie_valued ! 2) = ''CCC''" "ex_fmt1 (ESG_Score (tie_valued ! 2)) = ''40''"
    "name (tie_valued ! 1) = ''BBB''" "ex_fmt (esg_e (tie_valued ! 1)) = ''90''"
    by (simp_all add: tie_valued_def ex_fmt_def s)
  from r h t ne show ?thesis unfolding b0 w2 l1 c v by auto
qed

text \<open>
  C2, as the code has it. The module has no guard for an empty table and no error of its
  own: on the empty table the first maximum lookup raises \<^verbatim>\<open>ValueError\<close>, and no
  insights are returned.
\<close>

theorem insights_empty_raises_value_error: "get_esg_insights fmt1 fmt [] = Inl ValueError"
  by (simp add: get_esg_insights_def and_then_def idxmax_def)

theorem insights_empty_raises_value_error_witness:
  "get_esg_insights ex_fmt1 ex_fmt [] = Inl ValueError \<and>
   get_esg_insights ex_fmt1 ex_fmt [] \<noteq> Inr []"
  using insights_empty_raises_value_error [of ex_fmt1 ex_fmt] by simp

text \<open>
  C2, as the specification words it, fails: the failure on the empty table is not the
  specification's \<^verbatim>\<open>EmptyInputError\<close>.
\<close>

theorem insights_empty_not_empty_input_error: "get_esg_insights ex_fmt1 ex_fmt [] \<noteq> Inl EmptyInputError"
  by (simp add: get_esg_insights_def and_then_def idxmax_def)

section \<open>The portfolio calculator\<close>

lemma add_holding_fields [simp]:
  "market (add_holding A h r) = market r"
  "name (add_holding A h r) = name r"
  "last_price (add_holding A h r) = last_price r"
  "esg_e (add_holding A h r) = esg_e r"
  "esg_s (add_holding A h r) = esg_s r"
  "esg_g (add_holding A h r) = esg_g r"
  "ESG_Score (add_holding A h r) = ESG_Score r"
  "ESG_Rating (add_holding A h r) = ESG_Rating r"
  "Holding (add_holding A h r) = holding_of h (market r)"
  "Value_USD (add_holding A h r) =
     nanmul A Of_Value (Fin (holding_of h (market r))) (last_price r)"
  by (simp_all add: add_holding_def)

lemma truncate_add_holding [simp]: "merged.truncate (add_holding A h r) = r"
  by (simp add: add_holding_def merged.truncate_def)

lemma positive_not_zero: "positive t \<Longrightarrow> t \<noteq> Some (Fin 0)"
  by (cases t) auto

lemma metrics_unfold:
  fixes A df hs
  defines "vs \<equiv> map (add_holding A (resolve_holdings hs)) df"
  defines "t \<equiv> nansum A Of_Value (map Value_USD vs)"
  defines "w \<equiv> \<lambda>c. (case (weighted_sum A c vs, t) of
                        (Some x, Some y) \<Rightarrow> quot A (Of_Weighted c) x y | _ \<Rightarrow> None)"
  shows "calculate_portfolio_metrics A df hs =
     Inr (vs, \<lparr>total_value = t,
               weighted_esg = (if positive t then w Col_ESG_Score else Some (Fin 0)),
               weighted_environmental = (if positive t then w Col_esg_e else Some (Fin 0)),
               weighted_social = (if positive t then w Col_esg_s else Some (Fin 0)),
               weighted_governance = (if positive t then w Col_esg_g else Some (Fin 0)),
               num_holdings = length (filter (\<lambda>r. Holding r > 0) vs)\<rparr>)"
  unfolding calculate_portfolio_metrics_def Let_def and_then_def truediv_def vs_def t_def w_def
  by (simp del: map_map add: positive_not_zero)

lemma valued_rows:
  "calculate_portfolio_metrics A df hs = Inr (vs, m) \<Longrightarrow>
   vs = map (add_holding A (resolve_holdings hs)) df"
  unfolding metrics_unfold by simp

text \<open>
  C4. \<^verbatim>\<open>calculate_portfolio_metrics\<close> always returns a result, so no division with a
  zero divisor is ever performed, and when the total portfolio value (the sum of the
  values of all assets) is 0, all four weighted metrics are 0. This holds in every
  arithmetic.
\<close>

theorem zero_total_gives_zero_metrics:
  "\<exists>vs m. calculate_portfolio_metrics A df hs = Inr (vs, m) \<and>
     total_value m = nansum A Of_Value (map Value_USD vs) \<and>
     (total_value m = Some (Fin 0) \<longrightarrow>
        weighted_esg m = Some (Fin 0) \<and> weighted_environmental m = Some (Fin 0) \<and>
        weighted_social m = Some (Fin 0) \<and> weighted_governance m = Some (Fin 0))"
  unfolding metrics_unfold by simp

text \<open>
  C9, as the code has it. The valued table has the rows of the merged table, in the same
  order and with all their fields unchanged; each row gets two more fields: the holding,
  which is the quantity that the holdings map (the built-in default map when none is
  given) has for the row's symbol, or 0 when it has none, and the value, which is
  missing when the price is missing and otherwise the product of the holding and the
  price as the arithmetic of the two columns computes it.
\<close>

theorem valued_table_frame:
  "\<exists>vs m. calculate_portfolio_metrics A df hs = Inr (vs, m) \<and>
     map merged.truncate vs = df \<and>
     (\<forall>i < length df.
        market (vs ! i) = market (df ! i) \<and> name (vs ! i) = name (df ! i) \<and>
        last_price (vs ! i) = last_price (df ! i) \<and>
        esg_e (vs ! i) = esg_e (df ! i) \<and> esg_s (vs ! i) = esg_s (df ! i) \<and>
        esg_g (vs ! i) = esg_g (df ! i) \<and>
        ESG_Score (vs ! i) = ESG_Score (df ! i) \<and> ESG_Rating (vs ! i) = ESG_Rating (df ! i) \<and>
        Holding (vs ! i) =
          (case (case hs of None \<Rightarrow> default_holdings | Some h \<Rightarrow> h) (market (df ! i)) of
             Some q \<Rightarrow> q | None \<Rightarrow> 0) \<and>
        Value_USD (vs ! i) =
          (case last_price (df ! i) of
             None \<Rightarrow> None
           | Some p \<Rightarrow> times A Of_Value (Fin (Holding (vs ! i))) p) \<and>
        (\<forall>x. last_price (df ! i) = Some (Fin x) \<and>
             times A Of_Value (Fin (Holding (vs ! i))) (Fin x) =
               times exact_arith Of_Value (Fin (Holding (vs ! i))) (Fin x) \<longrightarrow>
             Value_USD (vs ! i) = Some (Fin (Holding (vs ! i) * x))))"
  unfolding metrics_unfold
  by (simp add: comp_def holding_of_def resolve_holdings_def nanmul_def exact_arith_def
      ieee_arith_def cong: option.case_cong)

lemma unpriced_merged:
  "merge_price_and_esg f64_arith unpriced ex_esg =
     [\<lparr>market = ''BTCUSDT'', last_price = None, name = ''BTC'',
       esg_e = 40, esg_s = 40, esg_g = 40, ESG_Score = Fin 40,
       ESG_Rating = ''C+ (Below Average)''\<rparr>]"
  by (simp add: merge_defs unpriced_def ex_esg_def categorize_esg_score_def f64_defs)

lemmas metrics_defs =
  add_holding_def resolve_holdings_def holding_of_def weighted_sum_def nansum_def nanmul_def
  nan_to_zero_def

lemma unpriced_result:
  "calculate_portfolio_metrics f64_arith (merge_price_and_esg f64_arith unpriced ex_esg) None =
     Inr ([\<lparr>market = ''BTCUSDT'', last_price = None, name = ''BTC'',
            esg_e = 40, esg_s = 40, esg_g = 40, ESG_Score = Fin 40,
            ESG_Rating = ''C+ (Below Average)'', Holding = 1 / 2, Value_USD = None\<rparr>],
          \<lparr>total_value = Some (Fin 0), weighted_esg = Some (Fin 0),
           weighted_environmental = Some (Fin 0), weighted_social = Some (Fin 0),
           weighted_governance = Some (Fin 0), num_holdings = 1\<rparr>)"
  unfolding metrics_unfold unpriced_merged
  by (simp add: metrics_defs default_holdings_def double_of_half f64_defs)

lemma short_result:
  "calculate_portfolio_metrics f64_arith (merge_price_and_esg f64_arith ex_prices ex_esg)
       (Some short_holdings) =
     Inr ([\<lparr>market = ''BTCUSDT'', last_price = Some (Fin 50000), name = ''BTC'',
            esg_e = 40, esg_s = 40, esg_g = 40, ESG_Score = Fin 40,
            ESG_Rating = ''C+ (Below Average)'', Holding = - 1,
            Value_USD = Some (Fin (- 50000))\<rparr>,
           \<lparr>market = ''ETHUSDT'', last_price = Some (Fin 3000), name = ''ETH'',
            esg_e = 70, esg_s = 70, esg_g = 70, ESG_Score = Fin 70,
            ESG_Rating = ''A (Very Good)'', Holding = 20, Value_USD = Some (Fin 60000)\<rparr>],
          \<lparr>total_value = Some (Fin 10000), weighted_esg = Some (Fin 220),
           weighted_environmental = Some (Fin 220), weighted_social = Some (Fin 220),
           weighted_governance = Some (Fin 220), num_holdings = 1\<rparr>)"
  unfolding metrics_unfold ex_merged
  by (simp add: metrics_defs short_holdings_def f64_defs)

lemma negative_merged:
  "merge_price_and_esg f64_arith negative_prices ex_esg =
     [\<lparr>market = ''BTCUSDT'', last_price = Some (Fin (- 1000)), name = ''BTC'',
       esg_e = 40, esg_s = 40, esg_g = 40, ESG_Score = Fin 40,
       ESG_Rating = ''C+ (Below Average)''\<rparr>,
      \<lparr>market = ''ETHUSDT'', last_price = Some (Fin 3000), name = ''ETH'',
       esg_e = 70, esg_s = 70, esg_g = 70, ESG_Score = Fin 70,
       ESG_Rating = ''A (Very Good)''\<rparr>]"
  by (simp add: merge_defs negative_prices_def ex_esg_def categorize_esg_score_def f64_defs)

lemma negative_result:
  "calculate_portfolio_metrics f64_arith (merge_price_and_esg f64_arith negative_prices ex_esg)
       (Some ex_holdings) =
     Inr ([\<lparr>market = ''BTCUSDT'', last_price = Some (Fin (- 1000)), name = ''BTC'',
            esg_e = 40, esg_s = 40, esg_g = 40, ESG_Score = Fin 40,
            ESG_Rating = ''C+ (Below Average)'', Holding = 1,
            Value_USD = Some (Fin (- 1000))\<rparr>,
           \<lparr>market = ''ETHUSDT'', last_price = Some (Fin 3000), name = ''ETH'',
            esg_e = 70, esg_s = 70, esg_g = 70, ESG_Score = Fin 70,
            ESG_Rating = ''A (Very Good)'', Holding = 1, Value_USD = Some (Fin 3000)\<rparr>],
          \<lparr>total_value = Some (Fin 2000), weighted_esg = Some (Fin 85),
           weighted_environmental = Some (Fin 85), weighted_social = Some (Fin 85),
           weighted_governance = Some (Fin 85), num_holdings = 2\<rparr>)"
  unfolding metrics_unfold negative_merged
  by (simp add: metrics_defs ex_holdings_def f64_defs)

lemma rounded_merged:
  "merge_price_and_esg f64_arith decimal_price esg_43 =
     [\<lparr>market = ''BTCUSDT'', last_price = Some (Fin (3435994452643021 / 68719476736)),
       name = ''BTC'', esg_e = 43, esg_s = 43, esg_g = 43, ESG_Score = Fin 43,
       ESG_Rating = ''C+ (Below Average)''\<rparr>]"
  by (simp add: merge_defs decimal_price_def esg_43_def categorize_esg_score_def f64_defs
      double_of_price)

lemma rounded_result:
  "calculate_portfolio_metrics f64_arith (merge_price_and_esg f64_arith decimal_price esg_43)
       (Some one_holding) =
     Inr ([\<lparr>market = ''BTCUSDT'', last_price = Some (Fin (3435994452643021 / 68719476736)),
            name = ''BTC'', esg_e = 43, esg_s = 43, esg_g = 43, ESG_Score = Fin 43,
            ESG_Rating = ''C+ (Below Average)'', Holding = 1,
            Value_USD = Some (Fin (3435994452643021 / 68719476736))\<rparr>],
          \<lparr>total_value = Some (Fin (3435994452643021 / 68719476736)),
           weighted_esg = Some (Fin (6051711999279103 / 140737488355328)),
           weighted_environmental = Some (Fin (6051711999279103 / 140737488355328)),
           weighted_social = Some (Fin (6051711999279103 / 140737488355328)),
           weighted_governance = Some (Fin (6051711999279103 / 140737488355328)),
           num_holdings = 1\<rparr>)"
  unfolding metrics_unfold rounded_merged
  by (simp add: metrics_defs one_holding_def f64_defs rnd_price rnd_43_price rnd_43_sum rnd_43_quot)

lemma even_result:
  "calculate_portfolio_metrics f64_arith (merge_price_and_esg f64_arith ex_prices ex_esg)
       (Some even_holdings) =
     Inr ([\<lparr>market = ''BTCUSDT'', last_price = Some (Fin 50000), name = ''BTC'',
            esg_e = 40, esg_s = 40, esg_g = 40, ESG_Score = Fin 40,
            ESG_Rating = ''C+ (Below Average)'', Holding = 3, Value_USD = Some (Fin 150000)\<rparr>,
           \<lparr>market = ''ETHUSDT'', last_price = Some (Fin 3000), name = ''ETH'',
            esg_e = 70, esg_s = 70, esg_g = 70, ESG_Score = Fin 70,
            ESG_Rating = ''A (Very Good)'', Holding = 50, Value_USD = Some (Fin 150000)\<rparr>],
          \<lparr>total_value = Some (Fin 300000), weighted_esg = Some (Fin 55),
           weighted_environmental = Some (Fin 55), weighted_social = Some (Fin 55),
           weighted_governance = Some (Fin 55), num_holdings = 2\<rparr>)"
  unfolding metrics_unfold ex_merged
  by (simp add: metrics_defs even_holdings_def f64_defs)

lemma even_result_exact:
  "calculate_portfolio_metrics exact_arith (merge_price_and_esg f64_arith ex_prices ex_esg)
       (Some even_holdings) =
   calculate_portfolio_metrics f64_arith (merge_price_and_esg f64_arith ex_prices ex_esg)
       (Some even_holdings)"
  unfolding even_result
  unfolding metrics_unfold ex_merged
  by (simp add: metrics_defs even_holdings_def exact_defs)

lemma tenth_merged:
  "merge_price_and_esg f64_arith price_of_three ex_esg =
     [\<lparr>market = ''BTCUSDT'', last_price = Some (Fin 3), name = ''BTC'',
       esg_e = 40, esg_s = 40, esg_g = 40, ESG_Score = Fin 40,
       ESG_Rating = ''C+ (Below Average)''\<rparr>]"
  by (simp add: merge_defs price_of_three_def ex_esg_def categorize_esg_score_def f64_defs)

text \<open>
  C9, as the specification words it, fails: with a quantity of 0.1 (as a \<^verbatim>\<open>float64\<close>
  number) and a price of 3 the value is 0.30000000000000004 (the number
  \<open>1351079888211149 / 2 ^ 52\<close>), which is not the product of the holding and the price.
\<close>

theorem value_is_rounded:
  "map Holding (result_rows (calculate_portfolio_metrics f64_arith
      (merge_price_and_esg f64_arith price_of_three ex_esg) (Some tenth_holdings))) =
     [3602879701896397 / 36028797018963968] \<and>
   map last_price (result_rows (calculate_portfolio_metrics f64_arith
      (merge_price_and_esg f64_arith price_of_three ex_esg) (Some tenth_holdings))) =
     [Some (Fin 3)] \<and>
   map Value_USD (result_rows (calculate_portfolio_metrics f64_arith
      (merge_price_and_esg f64_arith price_of_three ex_esg) (Some tenth_holdings))) =
     [Some (Fin (1351079888211149 / 4503599627370496))] \<and>
   (3602879701896397 / 36028797018963968) * 3 \<noteq> (1351079888211149 / 4503599627370496 :: real)"
  unfolding metrics_unfold tenth_merged
  by (simp add: result_rows_def metrics_defs tenth_holdings_def f64_defs double_of_tenth
      rnd_three_tenths)

theorem zero_total_gives_zero_metrics_witness:
  "result_metric total_value
     (calculate_portfolio_metrics f64_arith (merge_price_and_esg f64_arith unpriced ex_esg) None) =
     Inr (Some (Fin 0)) \<and>
   result_metric weighted_esg
     (calculate_portfolio_metrics f64_arith (merge_price_and_esg f64_arith unpriced ex_esg) None) =
     Inr (Some (Fin 0)) \<and>
   result_metric weighted_environmental
     (calculate_portfolio_metrics f64_arith (merge_price_and_esg f64_arith unpriced ex_esg) None) =
     Inr (Some (Fin 0)) \<and>
   result_metric weighted_social
     (calculate_portfolio_metrics f64_arith (merge_price_and_esg f64_arith unpriced ex_esg) None) =
     Inr (Some (Fin 0)) \<and>
   result_metric weighted_governance
     (calculate_portfolio_metrics f64_arith (merge_price_and_esg f64_arith unpriced ex_esg) None) =
     Inr (Some (Fin 0))"
proof -
  let ?R = "calculate_portfolio_metrics f64_arith (merge_price_and_esg f64_arith unpriced ex_esg) None"
  from zero_total_gives_zero_metrics [of f64_arith "merge_price_and_esg f64_arith unpriced ex_esg" None]
  obtain vs m where r: "?R = Inr (vs, m)"
    and i: "total_value m = Some (Fin 0) \<longrightarrow>
        weighted_esg m = Some (Fin 0) \<and> weighted_environmental m = Some (Fin 0) \<and>
        weighted_social m = Some (Fin 0) \<and> weighted_governance m = Some (Fin 0)"
    by blast
  from r have "total_value m = Some (Fin 0)"
    unfolding unpriced_result by auto
  with i show ?thesis
    unfolding r by (simp add: result_metric_def)
qed

theorem valued_table_frame_witness:
  "0 < length (merge_price_and_esg f64_arith ex_prices ex_esg) \<and>
   (\<exists>vs m. calculate_portfolio_metrics f64_arith (merge_price_and_esg f64_arith ex_prices ex_esg) None
        = Inr (vs, m) \<and>
      map merged.truncate vs = merge_price_and_esg f64_arith ex_prices ex_esg \<and>
      name (vs ! 0) = ''BTC'' \<and> last_price (vs ! 0) = Some (Fin 50000) \<and>
      Holding (vs ! 0) = 1 / 2 \<and> Value_USD (vs ! 0) = Some (Fin 25000))"
proof -
  have l: "0 < length (merge_price_and_esg f64_arith ex_prices ex_esg)"
    by (simp add: ex_merged)
  let ?M = "merge_price_and_esg f64_arith ex_prices ex_esg"
  from valued_table_frame [of f64_arith ?M None] obtain vs m where
    r: "calculate_portfolio_metrics f64_arith ?M None = Inr (vs, m)" and
    t: "map merged.truncate vs = ?M" and
    a: "\<forall>i < length ?M.
        market (vs ! i) = market (?M ! i) \<and> name (vs ! i) = name (?M ! i) \<and>
        last_price (vs ! i) = last_price (?M ! i) \<and>
        esg_e (vs ! i) = esg_e (?M ! i) \<and> esg_s (vs ! i) = esg_s (?M ! i) \<and>
        esg_g (vs ! i) = esg_g (?M ! i) \<and>
        ESG_Score (vs ! i) = ESG_Score (?M ! i) \<and> ESG_Rating (vs ! i) = ESG_Rating (?M ! i) \<and>
        Holding (vs ! i) =
          (case (case None of None \<Rightarrow> default_holdings | Some h \<Rightarrow> h) (market (?M ! i)) of
             Some q \<Rightarrow> q | None \<Rightarrow> 0) \<and>
        Value_USD (vs ! i) =
          (case last_price (?M ! i) of
             None \<Rightarrow> None
           | Some p \<Rightarrow> times f64_arith Of_Value (Fin (Holding (vs ! i))) p) \<and>
        (\<forall>x. last_price (?M ! i) = Some (Fin x) \<and>
             times f64_arith Of_Value (Fin (Holding (vs ! i))) (Fin x) =
               times exact_arith Of_Value (Fin (Holding (vs ! i))) (Fin x) \<longrightarrow>
             Value_USD (vs ! i) = Some (Fin (Holding (vs ! i) * x)))"
    by blast
  from a l have n: "name (vs ! 0) = ''BTC''" "last_price (vs ! 0) = Some (Fin 50000)"
    and h: "Holding (vs ! 0) = 1 / 2"
    by (simp_all add: ex_merged default_holdings_def double_of_half)
  have x: "times f64_arith Of_Value (Fin (1 / 2)) (Fin 50000) =
      times exact_arith Of_Value (Fin (1 / 2)) (Fin 50000)"
    by (simp add: f64_defs exact_defs)
  from a l have "last_price (?M ! 0) = Some (Fin 50000) \<and>
       times f64_arith Of_Value (Fin (Holding (vs ! 0))) (Fin 50000) =
         times exact_arith Of_Value (Fin (Holding (vs ! 0))) (Fin 50000) \<longrightarrow>
       Value_USD (vs ! 0) = Some (Fin (Holding (vs ! 0) * 50000))"
    by blast
  then have v: "Value_USD (vs ! 0) = Some (Fin 25000)"
    unfolding h using x by (simp add: ex_merged)
  from l r t n h v show ?thesis by blast
qed

section \<open>The weighted averages\<close>

lemma exact_reduce:
  "foldl (nan_add Fin) (Some (Fin a)) (map Fin xs) = Some (Fin (a + sum_list xs))"
  by (induction xs arbitrary: a) (simp_all add: nan_add_def add.assoc)

lemma exact_nansum:
  assumes "\<forall>v \<in> set xs. v = None \<or> (\<exists>x. v = Some (Fin x))"
  shows "nansum exact_arith c xs =
     Some (Fin (sum_list (map (\<lambda>v. case v of Some (Fin x) \<Rightarrow> x | _ \<Rightarrow> 0) xs)))"
proof -
  let ?g = "\<lambda>v. case v of Some (Fin x) \<Rightarrow> x | _ \<Rightarrow> (0::real)"
  have eq: "map nan_to_zero xs = map Fin (map ?g xs)"
    using assms by (induction xs) (auto simp: nan_to_zero_def)
  have "nansum exact_arith c xs = foldl (nan_add Fin) (Some (Fin 0)) (map nan_to_zero xs)"
    by (simp add: nansum_def exact_arith_def ieee_arith_def)
  also have "\<dots> = Some (Fin (0 + sum_list (map ?g xs)))"
    unfolding eq by (rule exact_reduce)
  finally show ?thesis by simp
qed

lemma weighted_bounds:
  fixes val f :: "'a \<Rightarrow> real"
  assumes "\<forall>r \<in> set vs. 0 \<le> val r \<and> (0 < val r \<longrightarrow> lo \<le> f r \<and> f r \<le> hi)"
  shows "lo * (\<Sum>r\<leftarrow>vs. val r) \<le> (\<Sum>r\<leftarrow>vs. f r * val r) \<and>
         (\<Sum>r\<leftarrow>vs. f r * val r) \<le> hi * (\<Sum>r\<leftarrow>vs. val r)"
  using assms
proof (induction vs)
  case Nil
  show ?case by simp
next
  case (Cons r vs)
  then have IH: "lo * (\<Sum>r\<leftarrow>vs. val r) \<le> (\<Sum>r\<leftarrow>vs. f r * val r)"
    "(\<Sum>r\<leftarrow>vs. f r * val r) \<le> hi * (\<Sum>r\<leftarrow>vs. val r)"
    by simp_all
  from Cons.prems have v: "0 \<le> val r" "0 < val r \<longrightarrow> lo \<le> f r \<and> f r \<le> hi"
    by simp_all
  have "lo * val r \<le> f r * val r \<and> f r * val r \<le> hi * val r"
  proof (cases "val r = 0")
    case True
    then show ?thesis by simp
  next
    case False
    with v have "0 < val r" "lo \<le> f r" "f r \<le> hi" by simp_all
    then show ?thesis by (simp add: mult_right_mono)
  qed
  with IH show ?case
    by (simp add: distrib_left)
qed

lemma sum_pos_elem:
  fixes val :: "'a \<Rightarrow> real"
  shows "0 < (\<Sum>r\<leftarrow>vs. val r) \<Longrightarrow> \<exists>r \<in> set vs. 0 < val r"
proof (induction vs)
  case Nil
  then show ?case by simp
next
  case (Cons r vs)
  show ?case
  proof (cases "0 < val r")
    case True
    then show ?thesis by simp
  next
    case False
    with Cons.prems have "0 < (\<Sum>r\<leftarrow>vs. val r)" by simp
    with Cons.IH show ?thesis by auto
  qed
qed

lemma holding_of_nonneg:
  "\<forall>k q. h k = Some q \<longrightarrow> 0 \<le> q \<Longrightarrow> 0 \<le> holding_of h k"
  by (cases "h k") (simp_all add: holding_of_def)

lemma exact_times [simp]: "times exact_arith c (Fin a) (Fin b) = Some (Fin (a * b))"
  by (simp add: exact_arith_def ieee_arith_def)

lemma exact_quot: "b \<noteq> 0 \<Longrightarrow> quot exact_arith c (Fin a) (Fin b) = Some (Fin (a / b))"
  by (simp add: exact_arith_def ieee_arith_def)

text \<open>
  The metrics in exact arithmetic, for a table whose scores and prices are finite: the
  value of a row is the real product, a missing value counts as 0, and the weighted
  metric is the real quotient of the two real sums.
\<close>

lemma exact_within:
  fixes h df c
  defines "vs \<equiv> map (add_holding exact_arith h) df"
  assumes h: "\<forall>k q. h k = Some q \<longrightarrow> 0 \<le> q"
    and p: "\<forall>r \<in> set df. (\<exists>s. ESG_Score r = Fin s) \<and>
              (\<forall>p. last_price r = Some p \<longrightarrow> (\<exists>x. p = Fin x \<and> 0 \<le> x))"
    and t: "positive (nansum exact_arith Of_Value (map Value_USD vs))"
  shows "within_held_range c vs
     (case (weighted_sum exact_arith c vs, nansum exact_arith Of_Value (map Value_USD vs)) of
        (Some x, Some y) \<Rightarrow> quot exact_arith (Of_Weighted c) x y | _ \<Rightarrow> None)"
proof -
  define val where "val r = (case Value_USD r of Some (Fin v) \<Rightarrow> v | _ \<Rightarrow> 0)" for r :: valued
  define sc where "sc r = (case col_of c r of Fin s \<Rightarrow> s | PInf \<Rightarrow> 0 | NInf \<Rightarrow> 0)" for r :: valued
  have row: "(Value_USD r = None \<or> (\<exists>v. Value_USD r = Some (Fin v))) \<and> col_of c r = Fin (sc r)
      \<and> 0 \<le> val r \<and> (0 < val r \<longrightarrow> 0 < Holding r)" if "r \<in> set vs" for r
  proof -
    from that obtain a where a: "a \<in> set df" "r = add_holding exact_arith h a"
      by (auto simp: vs_def)
    from p a(1) obtain s where s: "ESG_Score a = Fin s" by blast
    have q: "0 \<le> holding_of h (market a)" using h by (rule holding_of_nonneg)
    have c: "col_of c r = Fin (sc r)"
      unfolding sc_def using a(2) s by (cases c) simp_all
    show ?thesis
    proof (cases "last_price a")
      case None
      with a(2) c show ?thesis by (simp add: val_def nanmul_def)
    next
      case (Some pr)
      with p a(1) obtain x where x: "pr = Fin x" "0 \<le> x" by blast
      with Some a(2) have v: "Value_USD r = Some (Fin (holding_of h (market a) * x))"
        by (simp add: nanmul_def)
      then have "val r = holding_of h (market a) * x" by (simp add: val_def)
      moreover have "0 < holding_of h (market a) * x \<longrightarrow> 0 < holding_of h (market a)"
        using q x(2) by (auto simp: zero_less_mult_iff)
      ultimately show ?thesis using v c q x(2) a(2) by simp
    qed
  qed
  have total: "nansum exact_arith Of_Value (map Value_USD vs) = Some (Fin (\<Sum>r\<leftarrow>vs. val r))"
  proof -
    have "\<forall>v \<in> set (map Value_USD vs). v = None \<or> (\<exists>x. v = Some (Fin x))"
      using row by auto
    from exact_nansum [OF this] show ?thesis
      by (simp add: comp_def val_def)
  qed
  have wsum: "weighted_sum exact_arith c vs = Some (Fin (\<Sum>r\<leftarrow>vs. sc r * val r))"
  proof -
    let ?ps = "map (\<lambda>r. nanmul exact_arith (Of_Weighted c) (col_of c r) (Value_USD r)) vs"
    have e: "nanmul exact_arith (Of_Weighted c) (col_of c r) (Value_USD r) =
        (case Value_USD r of None \<Rightarrow> None | Some y \<Rightarrow> Some (Fin (sc r * val r)))"
      if "r \<in> set vs" for r
      using row [OF that] by (auto simp: nanmul_def val_def)
    have "\<forall>v \<in> set ?ps. v = None \<or> (\<exists>x. v = Some (Fin x))"
      using e by (auto split: option.splits)
    from exact_nansum [OF this]
    have A: "weighted_sum exact_arith c vs =
        Some (Fin (sum_list (map (\<lambda>v. case v of Some (Fin x) \<Rightarrow> x | _ \<Rightarrow> 0) ?ps)))"
      unfolding weighted_sum_def .
    have B: "map (\<lambda>v. case v of Some (Fin x) \<Rightarrow> x | _ \<Rightarrow> 0) ?ps = map (\<lambda>r. sc r * val r) vs"
    proof -
      have k: "(case nanmul exact_arith (Of_Weighted c) (col_of c r) (Value_USD r) of
               Some (Fin x) \<Rightarrow> x | _ \<Rightarrow> 0) = sc r * val r" if "r \<in> set vs" for r
        using e [OF that] by (cases "Value_USD r") (simp_all add: val_def)
      show ?thesis
        unfolding map_map by (rule map_cong) (simp_all add: k)
    qed
    show ?thesis unfolding A B ..
  qed
  let ?T = "\<Sum>r\<leftarrow>vs. val r"
  let ?W = "\<Sum>r\<leftarrow>vs. sc r * val r"
  from t have T: "0 < ?T" by (simp add: total)
  let ?H = "filter (\<lambda>r. 0 < Holding r) vs"
  from sum_pos_elem [OF T] obtain r0 where r0: "r0 \<in> set vs" "0 < val r0" by blast
  with row have "r0 \<in> set ?H" by simp
  then have ne: "?H \<noteq> []" by (metis empty_iff set_empty)
  then have ne': "sc ` set ?H \<noteq> {}" by (simp del: set_filter)
  have fin: "finite (sc ` set ?H)" by simp
  let ?lo = "Min (sc ` set ?H)" and ?hi = "Max (sc ` set ?H)"
  have "\<forall>r \<in> set vs. 0 \<le> val r \<and> (0 < val r \<longrightarrow> ?lo \<le> sc r \<and> sc r \<le> ?hi)"
  proof (intro ballI conjI impI)
    fix r assume r: "r \<in> set vs"
    with row show "0 \<le> val r" by simp
    assume "0 < val r"
    with row r have "sc r \<in> sc ` set ?H" by simp
    then show "?lo \<le> sc r" "sc r \<le> ?hi"
      using fin by (simp_all add: Min_le Max_ge del: set_filter)
  qed
  from weighted_bounds [OF this] T have b: "?lo \<le> ?W / ?T" "?W / ?T \<le> ?hi"
    by (simp_all add: pos_le_divide_eq pos_divide_le_eq)
  from Min_in [OF fin ne'] obtain rl where rl: "rl \<in> set ?H" "sc rl = ?lo" by auto
  from Max_in [OF fin ne'] obtain rh where rh: "rh \<in> set ?H" "sc rh = ?hi" by auto
  have hs: "held_scores c vs = map (col_of c) ?H"
    by (simp add: held_scores_def)
  have mem: "col_of c r \<in> set (held_scores c vs)" if "r \<in> set ?H" for r
    unfolding hs set_map using that by (rule imageI)
  have fv: "col_of c r = Fin (sc r)" if "r \<in> set ?H" for r
    using that row [of r] by simp
  have cl: "col_of c rl \<in> set (held_scores c vs)" "col_of c rl \<le> Fin (?W / ?T)"
    using mem [OF rl(1)] b(1) by (simp_all only: fv [OF rl(1)] rl(2) xreal_le)
  have ch: "col_of c rh \<in> set (held_scores c vs)" "Fin (?W / ?T) \<le> col_of c rh"
    using mem [OF rh(1)] b(2) by (simp_all only: fv [OF rh(1)] rh(2) xreal_le)
  have hne: "held_scores c vs \<noteq> []" using ne by (simp add: hs)
  have "Min (set (held_scores c vs)) \<le> Fin (?W / ?T)"
    using cl hne by (subst Min_le_iff) auto
  moreover have "Fin (?W / ?T) \<le> Max (set (held_scores c vs))"
    using ch hne by (subst Max_ge_iff) auto
  ultimately show ?thesis
    using hne T by (simp add: total wsum exact_quot within_held_range_def)
qed



lemma metric_in_range_iff:
  "metric_in_range c w res \<longleftrightarrow>
     (\<exists>x. result_metric w res = Inr (Some x) \<and> result_held c res \<noteq> [] \<and>
          Min (set (result_held c res)) \<le> x \<and> x \<le> Max (set (result_held c res)))"
  by (auto simp: metric_in_range_def result_metric_def result_held_def within_held_range_def
      split: sum.splits option.splits)


end
